theory Spec2Isabelle
  imports Main "HOL-Library.Word" "HOL-Library.Sublist"
begin

section \<open>restart\_anki.c: the data model\<close>

text \<open>
  The program is a Windows command-line helper: it waits for a process to exit, deletes an
  add-on directory or stages an add-on package, and relaunches the application.

  A C string is modelled by its contents, a \<open>string\<close> without the terminating NUL; a
  \<open>const char *\<close> that may be \<open>NULL\<close> is a \<open>string option\<close>. Everything the program
  does to the outside world is an \<open>event\<close>, and every function returns the list of events it
  caused, in order, next to its result. What the operating system answers is read from the
  record \<open>os\<close>.
\<close>

type_synonym handle = nat
type_synonym dword = "32 word"

datatype event =
    Printf string
  | Sleep nat
  | OpenProcess dword
  | GetExitCodeProcess handle
  | CloseHandle handle
  | MultiByteToWideChar string
  | SHFileOperationW string
  | DeleteFileA string
  | RemoveDirectoryA string
  | CreateProcessA string

text \<open>
  The answers of the operating system. The process queries are asked once in every round of
  the wait loop, so they take the number of the round; every other call is made at most
  once in a run.
  \<^item> \<open>open_process k pid\<close>: the handle \<open>OpenProcess\<close> returns in round \<open>k\<close>, \<open>None\<close> for \<open>NULL\<close>;
  \<^item> \<open>get_exit_code_process k h\<close>: \<open>None\<close> when \<open>GetExitCodeProcess\<close> returns \<open>FALSE\<close>,
    otherwise the exit code it stores;
  \<^item> \<open>multi_byte_to_wide_char path\<close>: the number of wide characters of the converted path,
    terminator included, 0 when the conversion fails;
  \<^item> \<open>malloc_ok n\<close>: whether \<open>malloc\<close> of \<open>n\<close> bytes returns a block;
  \<^item> \<open>sh_file_operation_w path\<close>: the result code of \<open>SHFileOperationW\<close> (0 is success);
  \<^item> \<open>delete_file_a\<close>, \<open>remove_directory_a\<close>: the \<open>BOOL\<close> results;
  \<^item> \<open>create_process_a command\<close>: the process and thread handles, \<open>None\<close> when
    \<open>CreateProcessA\<close> returns \<open>FALSE\<close>.
\<close>

record os =
  open_process :: "nat \<Rightarrow> dword \<Rightarrow> handle option"
  get_exit_code_process :: "nat \<Rightarrow> handle \<Rightarrow> dword option"
  multi_byte_to_wide_char :: "string \<Rightarrow> nat"
  malloc_ok :: "nat \<Rightarrow> bool"
  sh_file_operation_w :: "string \<Rightarrow> int"
  delete_file_a :: "string \<Rightarrow> bool"
  remove_directory_a :: "string \<Rightarrow> bool"
  create_process_a :: "string \<Rightarrow> (handle \<times> handle) option"

text \<open>
  A fault is what C leaves undefined: reading through a null pointer, or a pointer moved
  outside its string.
\<close>

datatype fault = NullPointer | OutOfBounds

datatype status = Exit int | Crash fault

section \<open>The C library functions the program calls\<close>

definition strlen :: "string option \<Rightarrow> fault + nat" where
  "strlen p = (case p of None \<Rightarrow> Inl NullPointer | Some s \<Rightarrow> Inr (length s))"

text \<open>
  \<open>strcmp\<close> compares the characters as unsigned bytes; only the sign of its result is
  specified. Either argument \<open>NULL\<close> is a fault.
\<close>

fun compare_bytes :: "string \<Rightarrow> string \<Rightarrow> int" where
  "compare_bytes [] [] = 0"
| "compare_bytes [] (y # ys) = - 1"
| "compare_bytes (x # xs) [] = 1"
| "compare_bytes (x # xs) (y # ys) =
     (if x = y then compare_bytes xs ys
      else if (of_char x :: nat) < of_char y then - 1 else 1)"

definition strcmp :: "string option \<Rightarrow> string option \<Rightarrow> fault + int" where
  "strcmp p q =
     (case p of None \<Rightarrow> Inl NullPointer
      | Some s \<Rightarrow> (case q of None \<Rightarrow> Inl NullPointer | Some t \<Rightarrow> Inr (compare_bytes s t)))"

text \<open>
  \<open>p + d\<close> for a pointer \<open>p\<close> to the start of a string: defined for
  \<open>0 \<le> d \<le> strlen p\<close> (the terminator can be pointed at), a fault otherwise. The result
  points at the rest of the string.
\<close>

definition ptr_add :: "string option \<Rightarrow> int \<Rightarrow> fault + string option" where
  "ptr_add p d =
     (case p of None \<Rightarrow> Inl NullPointer
      | Some s \<Rightarrow>
          if 0 \<le> d \<and> d \<le> int (length s) then Inr (Some (drop (nat d) s)) else Inl OutOfBounds)"

text \<open>
  \<open>snprintf (buf, bufsz, ...)\<close> stores at most \<open>bufsz - 1\<close> characters of the formatted text
  and the terminator.
\<close>

definition snprintf :: "nat \<Rightarrow> string \<Rightarrow> string" where
  "snprintf bufsz formatted = take (bufsz - 1) formatted"

section \<open>ends\_with\<close>

definition ends_with :: "string option \<Rightarrow> string option \<Rightarrow> fault + bool" where
  "ends_with str sfx =
     (if str = None \<or> sfx = None then Inr False
      else
        case strlen str of Inl f \<Rightarrow> Inl f | Inr str_len \<Rightarrow>
       (case strlen sfx of Inl f \<Rightarrow> Inl f | Inr suffix_len \<Rightarrow>
          if suffix_len > str_len then Inr False
          else
            (case ptr_add str (int str_len - int suffix_len) of Inl f \<Rightarrow> Inl f
             | Inr p \<Rightarrow>
                 (case strcmp p sfx of Inl f \<Rightarrow> Inl f | Inr c \<Rightarrow> Inr (c = 0)))))"

section \<open>launch\_anki\<close>

definition dquote :: char where
  "dquote = CHR 0x22"

definition newline :: char where
  "newline = CHR 0x0A"

text \<open>The two format strings of \<open>launch_anki\<close>, with their \<open>%s\<close> filled in.\<close>

definition command_with_package :: "string \<Rightarrow> string \<Rightarrow> string \<Rightarrow> string" where
  "command_with_package anki_exe anki_base package_file =
     ''cmd /c start /B '' @ [dquote, dquote] @ '' '' @ [dquote] @ anki_exe @ [dquote]
       @ '' -b '' @ [dquote] @ anki_base @ [dquote]
       @ '' '' @ [dquote] @ package_file @ [dquote]"

definition command_without_package :: "string \<Rightarrow> string \<Rightarrow> string" where
  "command_without_package anki_exe anki_base =
     ''cmd /c start /B '' @ [dquote, dquote] @ '' '' @ [dquote] @ anki_exe @ [dquote]
       @ '' -b '' @ [dquote] @ anki_base @ [dquote]"

text \<open>The contents of the buffer \<open>char command[2048]\<close> after the \<open>snprintf\<close>.\<close>

definition launch_command :: "string \<Rightarrow> string \<Rightarrow> string option \<Rightarrow> string" where
  "launch_command anki_exe anki_base package_file =
     (case package_file of
        Some p \<Rightarrow>
          if length p > 0 then snprintf 2048 (command_with_package anki_exe anki_base p)
          else snprintf 2048 (command_without_package anki_exe anki_base)
      | None \<Rightarrow> snprintf 2048 (command_without_package anki_exe anki_base))"

definition launch_anki :: "os \<Rightarrow> string \<Rightarrow> string \<Rightarrow> string option \<Rightarrow> bool \<times> event list" where
  "launch_anki w anki_exe anki_base package_file =
     (let command = launch_command anki_exe anki_base package_file;
          t = [Printf (''Executing: '' @ command @ [newline]), CreateProcessA command]
      in case create_process_a w command of
           Some (hProcess, hThread) \<Rightarrow> (True, t @ [CloseHandle hProcess, CloseHandle hThread])
         | None \<Rightarrow> (False, t))"

section \<open>is\_process\_running and the wait loop\<close>

definition STILL_ACTIVE :: dword where
  "STILL_ACTIVE = 259"

text \<open>The check made in round \<open>k\<close> of the wait loop.\<close>

definition is_process_running :: "os \<Rightarrow> nat \<Rightarrow> dword \<Rightarrow> bool \<times> event list" where
  "is_process_running w k pid =
     (case open_process w k pid of
        None \<Rightarrow> (False, [OpenProcess pid])
      | Some hProcess \<Rightarrow>
          ((case get_exit_code_process w k hProcess of
              None \<Rightarrow> False
            | Some exitCode \<Rightarrow> exitCode = STILL_ACTIVE),
           [OpenProcess pid, GetExitCodeProcess hProcess, CloseHandle hProcess]))"

text \<open>\<open>%lu\<close>: an unsigned number in decimal.\<close>

fun decimal :: "nat \<Rightarrow> string" where
  "decimal n =
     (if n < 10 then [char_of (48 + n)]
      else decimal (n div 10) @ [char_of (48 + n mod 10)])"

declare decimal.simps [simp del]

definition still_running_message :: "dword \<Rightarrow> string" where
  "still_running_message pid = ''PID '' @ decimal (unat pid) @ '' still running, sleeping...'' @ [newline]"

text \<open>
  The loop \<open>while (is_process_running(pid)) { printf(...); Sleep(500); }\<close>, entered in
  round \<open>k\<close> with the events \<open>t\<close> so far. It has no bound: a run that never leaves it is
  \<open>None\<close>.
\<close>

partial_function (option) wait_loop :: "os \<Rightarrow> dword \<Rightarrow> nat \<Rightarrow> event list \<Rightarrow> event list option" where
  "wait_loop w pid k t =
     (if fst (is_process_running w k pid)
      then wait_loop w pid (Suc k)
             (t @ snd (is_process_running w k pid) @ [Printf (still_running_message pid), Sleep 500])
      else Some (t @ snd (is_process_running w k pid)))"

declare wait_loop.simps [code]

section \<open>send\_to\_trash\<close>

definition sizeof_wchar_t :: nat where
  "sizeof_wchar_t = 2"

definition recycle_failed_message :: string where
  "recycle_failed_message = ''Recycle bin failed, attempting permanent deletion...'' @ [newline]"

definition send_to_trash :: "os \<Rightarrow> string \<Rightarrow> bool \<times> event list" where
  "send_to_trash w path =
     (let len = multi_byte_to_wide_char w path in
      if len = 0 then (False, [MultiByteToWideChar path])
      else if \<not> malloc_ok w (len * sizeof_wchar_t) then (False, [MultiByteToWideChar path])
      else
        let t = [MultiByteToWideChar path, MultiByteToWideChar path, SHFileOperationW path];
            result = sh_file_operation_w w path
        in
          if result \<noteq> 0 then
            let t1 = t @ [Printf recycle_failed_message, DeleteFileA path]
            in
              if delete_file_a w path then (True, t1)
              else if remove_directory_a w path then (True, t1 @ [RemoveDirectoryA path])
              else (False, t1 @ [RemoveDirectoryA path])
          else (True, t))"

section \<open>main\<close>

text \<open>
  \<open>atol\<close>: white space, an optional sign, then the longest run of decimal digits; anything
  after it is ignored, and no digits give 0. \<open>long\<close> has 32 bits on Windows; a value that
  does not fit is returned as \<open>LONG_MAX\<close> or \<open>LONG_MIN\<close>, as the Microsoft C runtime does.
\<close>

definition isspace :: "char \<Rightarrow> bool" where
  "isspace c = (c = CHR '' '' \<or> (9 \<le> (of_char c :: nat) \<and> (of_char c :: nat) \<le> 13))"

definition isdigit :: "char \<Rightarrow> bool" where
  "isdigit c = (48 \<le> (of_char c :: nat) \<and> (of_char c :: nat) \<le> 57)"

fun digits_value :: "int \<Rightarrow> string \<Rightarrow> int" where
  "digits_value acc [] = acc"
| "digits_value acc (c # cs) =
     (if isdigit c then digits_value (10 * acc + (int (of_char c) - 48)) cs else acc)"

definition LONG_MAX :: int where
  "LONG_MAX = 2147483647"

definition LONG_MIN :: int where
  "LONG_MIN = - 2147483648"

definition clamp_long :: "int \<Rightarrow> int" where
  "clamp_long v = (if v > LONG_MAX then LONG_MAX else if v < LONG_MIN then LONG_MIN else v)"

definition atol :: "string \<Rightarrow> int" where
  "atol s =
     (case dropWhile isspace s of
        [] \<Rightarrow> 0
      | c # cs \<Rightarrow>
          if c = CHR ''-'' then clamp_long (- digits_value 0 cs)
          else if c = CHR ''+'' then clamp_long (digits_value 0 cs)
          else clamp_long (digits_value 0 (c # cs)))"

text \<open>\<open>(DWORD)atol(argv[1])\<close>: the conversion to an unsigned 32-bit number wraps.\<close>

definition parse_pid :: "string \<Rightarrow> dword" where
  "parse_pid s = word_of_int (atol s)"

definition print_usage :: "string \<Rightarrow> event list" where
  "print_usage program_name =
     [Printf (''Usage: '' @ program_name @ '' <pid> <anki_exe> <anki_base> <addon_dir_or_package>'' @ [newline]),
      Printf [newline],
      Printf (''Arguments:'' @ [newline]),
      Printf (''  pid                    Process ID to wait for'' @ [newline]),
      Printf (''  anki_exe              Path to Anki executable'' @ [newline]),
      Printf (''  anki_base             Anki base data directory'' @ [newline]),
      Printf (''  addon_dir_or_package  Add-on directory to delete or package file to install'' @ [newline])]"

definition waiting_message :: "dword \<Rightarrow> string" where
  "waiting_message pid = ''Waiting for PID '' @ decimal (unat pid) @ '' to exit...'' @ [newline]"

definition gone_message :: "dword \<Rightarrow> string" where
  "gone_message pid =
     ''PID '' @ decimal (unat pid) @ '' is no longer running, proceeding to launch Anki.'' @ [newline]"

definition installing_message :: "string \<Rightarrow> string" where
  "installing_message p = ''Installing addon from package '' @ p @ ''...'' @ [newline]"

definition deleting_message :: "string \<Rightarrow> string" where
  "deleting_message p = ''Deleting addon directory '' @ p @ ''...'' @ [newline]"

definition delete_warning :: string where
  "delete_warning = ''Warning: Failed to delete addon directory'' @ [newline]"

definition launch_error :: string where
  "launch_error = ''Error: Failed to launch Anki'' @ [newline]"

definition launch_success :: string where
  "launch_success = ''Anki launched successfully'' @ [newline]"

definition package_extension :: string where
  "package_extension = ''.ankiaddon''"

text \<open>
  Lines 146 to 155 of \<open>main\<close>: the choice between the package and the directory. The result
  is the value of \<open>package_file\<close> after it.
\<close>

definition stage_or_delete :: "os \<Rightarrow> string \<Rightarrow> (fault + string option) \<times> event list" where
  "stage_or_delete w addon_dir_or_package =
     (case ends_with (Some addon_dir_or_package) (Some package_extension) of
        Inl f \<Rightarrow> (Inl f, [])
      | Inr True \<Rightarrow>
          (Inr (Some addon_dir_or_package), [Printf (installing_message addon_dir_or_package)])
      | Inr False \<Rightarrow>
          (Inr None,
           [Printf (deleting_message addon_dir_or_package)]
             @ snd (send_to_trash w addon_dir_or_package)
             @ (if \<not> fst (send_to_trash w addon_dir_or_package) then [Printf delete_warning] else [])))"

text \<open>
  \<open>main\<close>, called with \<open>argv[0] = program_name\<close> and \<open>argv[1 ..] = args\<close>, so that
  \<open>argc = 1 + length args\<close>. The result is the events of the run and how it ends; \<open>None\<close>
  is a run that never ends.
\<close>

definition main :: "os \<Rightarrow> string \<Rightarrow> string list \<Rightarrow> (event list \<times> status) option" where
  "main w program_name args =
     (if 1 + length args \<noteq> 5 then Some (print_usage program_name, Exit 1)
      else
        let pid = parse_pid (args ! 0);
            anki_exe = args ! 1;
            anki_base = args ! 2;
            addon_dir_or_package = args ! 3
        in
          if pid = 0 then Some ([Printf (''Error: Invalid PID'' @ [newline])], Exit 1)
          else
            case wait_loop w pid 0 [Printf (waiting_message pid)] of
              None \<Rightarrow> None
            | Some t1 \<Rightarrow>
                (let t2 = t1 @ [Printf (gone_message pid)] in
                 (case stage_or_delete w addon_dir_or_package of
                    (Inl f, t3) \<Rightarrow> Some (t2 @ t3, Crash f)
                  | (Inr package_file, t3) \<Rightarrow>
                      (let (launched, t4) = launch_anki w anki_exe anki_base package_file in
                       if \<not> launched then Some (t2 @ t3 @ t4 @ [Printf launch_error], Exit 1)
                       else Some (t2 @ t3 @ t4 @ [Printf launch_success], Exit 0)))))"

section \<open>Vocabulary for the properties\<close>

text \<open>
  The text that the format string chosen by \<open>launch_anki\<close> produces, before
  \<open>snprintf\<close> cuts it to the buffer.
\<close>

definition formatted_command :: "string \<Rightarrow> string \<Rightarrow> string option \<Rightarrow> string" where
  "formatted_command anki_exe anki_base package_file =
     (case package_file of
        Some p \<Rightarrow>
          if length p > 0 then command_with_package anki_exe anki_base p
          else command_without_package anki_exe anki_base
      | None \<Rightarrow> command_without_package anki_exe anki_base)"

text \<open>The kinds of event.\<close>

fun is_printf :: "event \<Rightarrow> bool" where
  "is_printf (Printf _) = True"
| "is_printf _ = False"

fun is_sleep :: "event \<Rightarrow> bool" where
  "is_sleep (Sleep _) = True"
| "is_sleep _ = False"

fun is_delete_event :: "event \<Rightarrow> bool" where
  "is_delete_event (MultiByteToWideChar _) = True"
| "is_delete_event (SHFileOperationW _) = True"
| "is_delete_event (DeleteFileA _) = True"
| "is_delete_event (RemoveDirectoryA _) = True"
| "is_delete_event _ = False"

fun is_launch_event :: "event \<Rightarrow> bool" where
  "is_launch_event (CreateProcessA _) = True"
| "is_launch_event _ = False"

text \<open>The events of the wait step: output, sleeping and the process query.\<close>

fun is_wait_event :: "event \<Rightarrow> bool" where
  "is_wait_event (Printf _) = True"
| "is_wait_event (Sleep _) = True"
| "is_wait_event (OpenProcess _) = True"
| "is_wait_event (GetExitCodeProcess _) = True"
| "is_wait_event (CloseHandle _) = True"
| "is_wait_event _ = False"

text \<open>
  The digits \<open>atol\<close> reads from a string: the longest run of decimal digits after the
  white space and one optional sign.
\<close>

definition leading_digits :: "string \<Rightarrow> string" where
  "leading_digits s =
     takeWhile isdigit
       (case dropWhile isspace s of
          [] \<Rightarrow> []
        | c # cs \<Rightarrow> if c = CHR ''-'' \<or> c = CHR ''+'' then cs else c # cs)"

text \<open>The value of \<open>package_file\<close> after the choice made on the fourth argument.\<close>

definition staged_package :: "string \<Rightarrow> string option" where
  "staged_package addon_dir_or_package =
     (if suffix package_extension addon_dir_or_package then Some addon_dir_or_package else None)"

text \<open>
  \<open>send_to_trash\<close> reaches the recycle bin: the path was converted to wide characters and
  memory for the converted path was there.
\<close>

definition path_converted :: "os \<Rightarrow> string \<Rightarrow> bool" where
  "path_converted w path =
     (multi_byte_to_wide_char w path \<noteq> 0
      \<and> malloc_ok w (multi_byte_to_wide_char w path * sizeof_wchar_t))"

text \<open>One round of waiting: the check that finds the process running, the message, the sleep.\<close>

definition waiting_round :: "os \<Rightarrow> dword \<Rightarrow> nat \<Rightarrow> event list" where
  "waiting_round w pid j =
     snd (is_process_running w j pid) @ [Printf (still_running_message pid), Sleep 500]"

section \<open>Operating systems for the examples\<close>

text \<open>
  \<open>os_quiet\<close>: the process asked about is gone, the recycle bin works, every call
  succeeds.
\<close>

definition os_quiet :: os where
  "os_quiet =
     \<lparr>open_process = (\<lambda>k pid. None),
      get_exit_code_process = (\<lambda>k h. None),
      multi_byte_to_wide_char = (\<lambda>path. Suc (length path)),
      malloc_ok = (\<lambda>n. True),
      sh_file_operation_w = (\<lambda>path. 0),
      delete_file_a = (\<lambda>path. True),
      remove_directory_a = (\<lambda>path. True),
      create_process_a = (\<lambda>command. Some (3, 4))\<rparr>"

text \<open>\<open>os_busy_twice\<close>: the process is found running in rounds 0 and 1 and is gone in round 2.\<close>

definition os_busy_twice :: os where
  "os_busy_twice =
     os_quiet
       \<lparr>open_process := (\<lambda>k pid. if k < 2 then Some 7 else None),
        get_exit_code_process := (\<lambda>k h. Some STILL_ACTIVE)\<rparr>"

text \<open>\<open>os_never_exits\<close>: the process is found running in every round.\<close>

definition os_never_exits :: os where
  "os_never_exits =
     os_quiet
       \<lparr>open_process := (\<lambda>k pid. Some 7),
        get_exit_code_process := (\<lambda>k h. Some STILL_ACTIVE)\<rparr>"



text \<open>
  \<open>os_no_recycle_bin\<close>: \<open>SHFileOperationW\<close> fails with code 2; the two booleans are the
  answers of \<open>DeleteFileA\<close> and \<open>RemoveDirectoryA\<close>.
\<close>

definition os_no_recycle_bin :: "bool \<Rightarrow> bool \<Rightarrow> os" where
  "os_no_recycle_bin file_deleted directory_removed =
     os_quiet
       \<lparr>sh_file_operation_w := (\<lambda>path. 2),
        delete_file_a := (\<lambda>path. file_deleted),
        remove_directory_a := (\<lambda>path. directory_removed)\<rparr>"

text \<open>\<open>os_no_memory\<close>: \<open>malloc\<close> returns \<open>NULL\<close>.\<close>

definition os_no_memory :: os where
  "os_no_memory = os_quiet \<lparr>malloc_ok := (\<lambda>n. False)\<rparr>"

text \<open>\<open>os_no_launch\<close>: \<open>CreateProcessA\<close> fails.\<close>

definition os_no_launch :: os where
  "os_no_launch = os_quiet \<lparr>create_process_a := (\<lambda>command. None)\<rparr>"

section \<open>Facts about the string functions\<close>

lemma compare_bytes_eq_0: "compare_bytes s t = 0 \<longleftrightarrow> s = t"
  by (induction s t rule: compare_bytes.induct) auto

lemma drop_eq_suffix:
  assumes "length t \<le> length s"
  shows "drop (length s - length t) s = t \<longleftrightarrow> suffix t s"
proof
  assume "drop (length s - length t) s = t"
  then have "s = take (length s - length t) s @ t"
    by (metis append_take_drop_id)
  then show "suffix t s"
    unfolding suffix_def by blast
next
  assume "suffix t s"
  then obtain p where "s = p @ t"
    unfolding suffix_def by blast
  then show "drop (length s - length t) s = t"
    by simp
qed

lemma ends_with_strings: "ends_with (Some s) (Some t) = Inr (suffix t s)"
proof (cases "length t \<le> length s")
  case True
  then have "nat (int (length s) - int (length t)) = length s - length t"
    by simp
  with True show ?thesis
    by (simp add: ends_with_def strlen_def ptr_add_def strcmp_def compare_bytes_eq_0
        drop_eq_suffix)
next
  case False
  then have "\<not> suffix t s"
    using suffix_length_le by blast
  with False show ?thesis
    by (simp add: ends_with_def strlen_def)
qed

lemma ends_with_null: "ends_with None sfx = Inr False" "ends_with str None = Inr False"
  by (simp_all add: ends_with_def)

lemma ends_with_never_faults: "\<exists>b. ends_with str sfx = Inr b"
proof (cases str)
  case None
  then show ?thesis by (auto simp: ends_with_null)
next
  case (Some s)
  show ?thesis
  proof (cases sfx)
    case None
    then show ?thesis by (auto simp: ends_with_null)
  next
    case (Some t)
    with \<open>str = Some s\<close> show ?thesis by (simp add: ends_with_strings)
  qed
qed

section \<open>Facts about atol\<close>

lemma digit_zero: "((of_char c :: nat) = 48) = (c = CHR ''0'')"
proof -
  have "(of_char (CHR ''0'') :: nat) = 48"
    by simp
  then show ?thesis
    by (metis of_char_eq_iff)
qed

lemma digits_value_zero_iff:
  "0 \<le> acc \<Longrightarrow>
   (digits_value acc s = 0) = (acc = 0 \<and> (\<forall>c \<in> set (takeWhile isdigit s). c = CHR ''0''))"
proof (induction s arbitrary: acc)
  case Nil
  then show ?case by simp
next
  case (Cons c cs)
  show ?case
  proof (cases "isdigit c")
    case True
    then have d: "0 \<le> int (of_char c) - 48"
      by (simp add: isdigit_def)
    with Cons.prems have nonneg: "0 \<le> 10 * acc + (int (of_char c) - 48)"
      by simp
    have "(10 * acc + (int (of_char c) - 48) = 0) = (acc = 0 \<and> c = CHR ''0'')"
      using Cons.prems d digit_zero [of c] by auto
    with True Cons.IH [OF nonneg] show ?thesis
      by auto
  next
    case False
    then show ?thesis by simp
  qed
qed

lemma clamp_long_zero: "(clamp_long v = 0) = (v = 0)"
  by (simp add: clamp_long_def LONG_MAX_def LONG_MIN_def)

lemma clamp_long_range: "- 2147483648 \<le> clamp_long v \<and> clamp_long v \<le> 2147483647"
  by (simp add: clamp_long_def LONG_MAX_def LONG_MIN_def)

lemma atol_range: "- 2147483648 \<le> atol s \<and> atol s \<le> 2147483647"
  using clamp_long_range by (simp add: atol_def split: list.split)

lemma atol_zero_iff: "(atol s = 0) = (\<forall>c \<in> set (leading_digits s). c = CHR ''0'')"
proof (cases "dropWhile isspace s")
  case Nil
  show ?thesis
    unfolding atol_def leading_digits_def Nil by simp
next
  case (Cons c cs)
  have z: "(digits_value 0 r = 0) = (\<forall>c \<in> set (takeWhile isdigit r). c = CHR ''0'')" for r
    using digits_value_zero_iff [of 0 r] by simp
  show ?thesis
    unfolding atol_def leading_digits_def Cons
    by (simp add: clamp_long_zero z del: digits_value.simps)
qed

lemma parse_pid_zero_iff: "(parse_pid s = 0) = (\<forall>c \<in> set (leading_digits s). c = CHR ''0'')"
proof -
  have "(parse_pid s = 0) = (atol s = 0)"
  proof
    assume "parse_pid s = 0"
    then have "(2 :: int) ^ 32 dvd atol s"
      by (simp add: parse_pid_def word_of_int_eq_0_iff)
    then obtain q where q: "atol s = 4294967296 * q"
      by (auto simp: dvd_def)
    with atol_range [of s] have "q = 0"
      by linarith
    with q show "atol s = 0" by simp
  next
    assume "atol s = 0"
    then show "parse_pid s = 0" by (simp add: parse_pid_def)
  qed
  then show ?thesis
    by (simp add: atol_zero_iff)
qed

lemma parse_pid_1234: "parse_pid ''1234'' = 1234"
  by (simp add: parse_pid_def atol_def isspace_def isdigit_def clamp_long_def LONG_MAX_def
      LONG_MIN_def)

section \<open>Facts about the wait loop\<close>

lemma is_process_running_events: "\<forall>e \<in> set (snd (is_process_running w k pid)). is_wait_event e"
  by (simp add: is_process_running_def split: option.split)



lemma wait_loop_returns_only_when_gone:
  assumes "wait_loop w pid k t = Some y"
  shows "\<exists>j\<ge>k. \<not> fst (is_process_running w j pid)"
proof (rule wait_loop.raw_induct
    [where P = "\<lambda>w pid k t y. \<exists>j\<ge>k. \<not> fst (is_process_running w j pid)", OF _ assms])
  fix wl :: "os \<Rightarrow> dword \<Rightarrow> nat \<Rightarrow> event list \<Rightarrow> event list option"
  fix w pid k t y
  assume IH: "\<And>w pid k t y. wl w pid k t = Some y \<Longrightarrow> \<exists>j\<ge>k. \<not> fst (is_process_running w j pid)"
  assume step: "(if fst (is_process_running w k pid)
      then wl w pid (Suc k)
             (t @ snd (is_process_running w k pid) @ [Printf (still_running_message pid), Sleep 500])
      else Some (t @ snd (is_process_running w k pid))) = Some y"
  show "\<exists>j\<ge>k. \<not> fst (is_process_running w j pid)"
  proof (cases "fst (is_process_running w k pid)")
    case True
    with step have "wl w pid (Suc k) (t @ snd (is_process_running w k pid) @ [Printf (still_running_message pid), Sleep 500]) = Some y"
      by (simp only: if_True)
    from IH[OF this] obtain j where j: "Suc k \<le> j" "\<not> fst (is_process_running w j pid)"
      by (elim exE conjE)
    from j(1) have "k \<le> j" by (rule Suc_leD)
    with j(2) show ?thesis
      by (intro exI[of _ j] conjI)
  next
    case False
    show ?thesis
      by (rule exI[of _ k]) (simp add: False)
  qed
qed

lemma wait_loop_never_returns:
  assumes "\<forall>j. fst (is_process_running w j pid)"
  shows "wait_loop w pid k t = None"
proof (cases "wait_loop w pid k t")
  case None
  then show ?thesis .
next
  case (Some y)
  from wait_loop_returns_only_when_gone [OF this] assms show ?thesis
    by blast
qed

text \<open>The loop run for \<open>d\<close> rounds from round \<open>k\<close>.\<close>

lemma wait_loop_rounds:
  assumes "\<forall>j<d. fst (is_process_running w (k + j) pid)"
    and "\<not> fst (is_process_running w (k + d) pid)"
  shows "wait_loop w pid k t =
    Some (t @ concat (map (waiting_round w pid) [k..<k + d])
            @ snd (is_process_running w (k + d) pid))"
  using assms
proof (induction d arbitrary: k t)
  case 0
  then show ?case
    by (subst wait_loop.simps) simp
next
  case (Suc d)
  from Suc.prems(1) have "fst (is_process_running w (k + 0) pid)"
    by blast
  then have run: "fst (is_process_running w k pid)"
    by simp
  have a: "\<forall>j<d. fst (is_process_running w (Suc k + j) pid)"
  proof (intro allI impI)
    fix j assume "j < d"
    then have "Suc j < Suc d" by simp
    with Suc.prems(1) have "fst (is_process_running w (k + Suc j) pid)" by blast
    then show "fst (is_process_running w (Suc k + j) pid)" by simp
  qed
  have b: "\<not> fst (is_process_running w (Suc k + d) pid)"
    using Suc.prems(2) by simp
  have ih: "wait_loop w pid (Suc k) (t @ waiting_round w pid k) =
     Some ((t @ waiting_round w pid k) @ concat (map (waiting_round w pid) [Suc k..<Suc k + d])
            @ snd (is_process_running w (Suc k + d) pid))"
    by (rule Suc.IH[OF a b])
  have upt: "[k..<k + Suc d] = k # [Suc k..<Suc k + d]"
    by (simp add: upt_conv_Cons)
  have unfold: "wait_loop w pid k t = wait_loop w pid (Suc k) (t @ waiting_round w pid k)"
    by (subst wait_loop.simps) (simp only: run if_True waiting_round_def)
  show ?case
    by (simp only: unfold ih upt) simp
qed

lemma wait_loop_at_once:
  assumes "open_process w 0 pid = None"
  shows "wait_loop w pid 0 t = Some (t @ [OpenProcess pid])"
  using assms by (subst wait_loop.simps) (simp add: is_process_running_def)

lemma wait_loop_events:
  assumes "wait_loop w pid k t = Some y"
  shows "\<exists>u. y = t @ u \<and> (\<forall>e \<in> set u. is_wait_event e)"
proof (rule wait_loop.raw_induct
    [where P = "\<lambda>w pid k t y. \<exists>u. y = t @ u \<and> (\<forall>e \<in> set u. is_wait_event e)", OF _ assms])
  fix wl :: "os \<Rightarrow> dword \<Rightarrow> nat \<Rightarrow> event list \<Rightarrow> event list option"
  fix w pid k t y
  assume IH: "\<And>w pid k t y. wl w pid k t = Some y \<Longrightarrow>
                \<exists>u. y = t @ u \<and> (\<forall>e \<in> set u. is_wait_event e)"
  assume step: "(if fst (is_process_running w k pid)
      then wl w pid (Suc k)
             (t @ snd (is_process_running w k pid) @ [Printf (still_running_message pid), Sleep 500])
      else Some (t @ snd (is_process_running w k pid))) = Some y"
  show "\<exists>u. y = t @ u \<and> (\<forall>e \<in> set u. is_wait_event e)"
  proof (cases "fst (is_process_running w k pid)")
    case True
    with step have "wl w pid (Suc k) (t @ snd (is_process_running w k pid) @ [Printf (still_running_message pid), Sleep 500]) = Some y"
      by (simp only: if_True)
    from IH[OF this] obtain u where u: "y = (t @ snd (is_process_running w k pid) @ [Printf (still_running_message pid), Sleep 500]) @ u"
      "\<forall>e \<in> set u. is_wait_event e"
      by (elim exE conjE)
    have "y = t @ (snd (is_process_running w k pid) @ [Printf (still_running_message pid), Sleep 500] @ u)"
      using u(1) by simp
    moreover have "\<forall>e \<in> set (snd (is_process_running w k pid) @ [Printf (still_running_message pid), Sleep 500] @ u). is_wait_event e"
      using u(2) is_process_running_events [of w k pid] by auto
    ultimately show ?thesis by blast
  next
    case False
    with step have "y = t @ snd (is_process_running w k pid)"
      by simp
    then show ?thesis
      using is_process_running_events [of w k pid] by blast
  qed
qed

lemma wait_trace_events:
  "\<forall>e \<in> set (concat (map (waiting_round w pid) [0..<n]) @ snd (is_process_running w n pid)).
     is_wait_event e"
  using is_process_running_events by (auto simp: waiting_round_def)

section \<open>Facts about send\_to\_trash\<close>

lemma send_to_trash_cases:
  "send_to_trash w path =
     (if multi_byte_to_wide_char w path = 0
         \<or> \<not> malloc_ok w (multi_byte_to_wide_char w path * sizeof_wchar_t)
      then (False, [MultiByteToWideChar path])
      else if sh_file_operation_w w path = 0
      then (True, [MultiByteToWideChar path, MultiByteToWideChar path, SHFileOperationW path])
      else (delete_file_a w path \<or> remove_directory_a w path,
            [MultiByteToWideChar path, MultiByteToWideChar path, SHFileOperationW path,
             Printf recycle_failed_message, DeleteFileA path]
              @ (if delete_file_a w path then [] else [RemoveDirectoryA path])))"
  by (simp add: send_to_trash_def Let_def)

lemma send_to_trash_events: "\<forall>e \<in> set (snd (send_to_trash w path)). is_delete_event e \<or> is_printf e"
  by (simp add: send_to_trash_def Let_def)

lemma send_to_trash_first: "MultiByteToWideChar path \<in> set (snd (send_to_trash w path))"
  by (simp add: send_to_trash_def Let_def)

lemma send_to_trash_not_converted:
  assumes "\<not> path_converted w path"
  shows "send_to_trash w path = (False, [MultiByteToWideChar path])"
  using assms by (auto simp: send_to_trash_cases path_converted_def)

lemma send_to_trash_recycled:
  assumes "path_converted w path" and "sh_file_operation_w w path = 0"
  shows "send_to_trash w path =
     (True, [MultiByteToWideChar path, MultiByteToWideChar path, SHFileOperationW path])"
  using assms by (auto simp: send_to_trash_cases path_converted_def)

lemma send_to_trash_fallback:
  assumes "path_converted w path" and "sh_file_operation_w w path \<noteq> 0"
  shows "send_to_trash w path =
     (delete_file_a w path \<or> remove_directory_a w path,
      [MultiByteToWideChar path, MultiByteToWideChar path, SHFileOperationW path,
       Printf recycle_failed_message, DeleteFileA path]
        @ (if delete_file_a w path then [] else [RemoveDirectoryA path]))"
  using assms by (auto simp: send_to_trash_cases path_converted_def)

section \<open>Facts about launch\_anki\<close>

lemma launch_command_snprintf:
  "launch_command anki_exe anki_base package_file =
     snprintf 2048 (formatted_command anki_exe anki_base package_file)"
  by (simp add: launch_command_def formatted_command_def split: option.split)

lemma launch_anki_trace:
  "snd (launch_anki w anki_exe anki_base package_file) =
     [Printf (''Executing: '' @ launch_command anki_exe anki_base package_file @ [newline]),
      CreateProcessA (launch_command anki_exe anki_base package_file)]
     @ (case create_process_a w (launch_command anki_exe anki_base package_file) of
          None \<Rightarrow> []
        | Some (hProcess, hThread) \<Rightarrow> [CloseHandle hProcess, CloseHandle hThread])"
  by (simp add: launch_anki_def Let_def split: option.split prod.split)

lemma launch_anki_result:
  "fst (launch_anki w anki_exe anki_base package_file) =
     (create_process_a w (launch_command anki_exe anki_base package_file) \<noteq> None)"
  by (simp add: launch_anki_def Let_def split: option.split prod.split)

lemma launch_anki_creates:
  "CreateProcessA (launch_command anki_exe anki_base package_file)
     \<in> set (snd (launch_anki w anki_exe anki_base package_file))"
  by (simp add: launch_anki_trace)

lemma launch_anki_only_command:
  "CreateProcessA c \<in> set (snd (launch_anki w anki_exe anki_base package_file)) \<Longrightarrow>
   c = launch_command anki_exe anki_base package_file"
  by (auto simp: launch_anki_trace split: option.splits)

lemma launch_anki_quiet:
  "\<forall>e \<in> set (snd (launch_anki w anki_exe anki_base package_file)).
     \<not> is_sleep e \<and> \<not> is_delete_event e \<and> (\<forall>p. e \<noteq> OpenProcess p)"
  by (auto simp: launch_anki_trace split: option.split)

lemma formatted_command_staged:
  "formatted_command anki_exe anki_base (staged_package addon) =
     (if suffix package_extension addon then command_with_package anki_exe anki_base addon
      else command_without_package anki_exe anki_base)"
proof (cases "suffix package_extension addon")
  case True
  then have "length package_extension \<le> length addon"
    by (rule suffix_length_le)
  then have "0 < length addon"
    by (auto simp: package_extension_def)
  with True show ?thesis
    by (simp add: formatted_command_def staged_package_def)
next
  case False
  then show ?thesis
    by (simp add: formatted_command_def staged_package_def)
qed

section \<open>Facts about the choice between package and directory\<close>

lemma stage_or_delete_package:
  assumes "suffix package_extension addon"
  shows "stage_or_delete w addon = (Inr (Some addon), [Printf (installing_message addon)])"
  using assms by (simp add: stage_or_delete_def ends_with_strings)

lemma stage_or_delete_directory:
  assumes "\<not> suffix package_extension addon"
  shows "stage_or_delete w addon =
     (Inr None,
      [Printf (deleting_message addon)] @ snd (send_to_trash w addon)
        @ (if \<not> fst (send_to_trash w addon) then [Printf delete_warning] else []))"
  using assms by (simp add: stage_or_delete_def ends_with_strings)

lemma stage_or_delete_result: "fst (stage_or_delete w addon) = Inr (staged_package addon)"
  by (simp add: stage_or_delete_package stage_or_delete_directory staged_package_def)

lemma stage_or_delete_events:
  "\<forall>e \<in> set (snd (stage_or_delete w addon)). is_delete_event e \<or> is_printf e"
proof (cases "suffix package_extension addon")
  case True
  then show ?thesis by (simp add: stage_or_delete_package)
next
  case False
  then show ?thesis
    using send_to_trash_events [of w addon] by (auto simp: stage_or_delete_directory)
qed

lemma delete_or_printf_event:
  assumes "is_delete_event e \<or> is_printf e"
  shows "\<not> is_sleep e \<and> \<not> is_launch_event e \<and> (\<forall>p. e \<noteq> OpenProcess p)"
  using assms by (cases e) auto

lemma stage_or_delete_quiet:
  "\<forall>e \<in> set (snd (stage_or_delete w addon)).
     \<not> is_sleep e \<and> \<not> is_launch_event e \<and> (\<forall>p. e \<noteq> OpenProcess p)"
  using stage_or_delete_events [of w addon] delete_or_printf_event by blast

lemma wait_event_not_launch: "is_wait_event e \<Longrightarrow> \<not> is_launch_event e \<and> \<not> is_delete_event e"
  by (cases e) auto

lemma print_usage_events: "\<forall>e \<in> set (print_usage program_name). is_printf e"
  by (simp add: print_usage_def)

lemma after_wait_no_sleep:
  "\<forall>e \<in> set (snd (stage_or_delete w addon) @ snd (launch_anki w anki_exe anki_base package_file)
              @ [Printf m]). \<not> is_sleep e \<and> (\<forall>p. e \<noteq> OpenProcess p)"
  using stage_or_delete_quiet [of w addon] launch_anki_quiet [of w anki_exe anki_base package_file]
  by auto

section \<open>Facts about main\<close>

lemma main_usage:
  assumes "length args \<noteq> 4"
  shows "main w program_name args = Some (print_usage program_name, Exit 1)"
  using assms by (simp add: main_def)

lemma main_invalid_pid:
  assumes "length args = 4" and "parse_pid (args ! 0) = 0"
  shows "main w program_name args =
     Some ([Printf (''Error: Invalid PID'' @ [newline])], Exit 1)"
  using assms by (simp add: main_def)

lemma main_never_returns:
  assumes "parse_pid a1 \<noteq> 0"
    and "wait_loop w (parse_pid a1) 0 [Printf (waiting_message (parse_pid a1))] = None"
  shows "main w program_name [a1, anki_exe, anki_base, addon] = None"
  using assms by (simp add: main_def)

text \<open>What a run consists of once the wait loop has returned.\<close>

lemma main_after_wait:
  assumes "parse_pid a1 \<noteq> 0"
    and "wait_loop w (parse_pid a1) 0 [Printf (waiting_message (parse_pid a1))] = Some t1"
  shows "main w program_name [a1, anki_exe, anki_base, addon] =
     Some (t1 @ [Printf (gone_message (parse_pid a1))] @ snd (stage_or_delete w addon)
             @ snd (launch_anki w anki_exe anki_base (staged_package addon))
             @ [Printf (if fst (launch_anki w anki_exe anki_base (staged_package addon))
                        then launch_success else launch_error)],
           Exit (if fst (launch_anki w anki_exe anki_base (staged_package addon)) then 0 else 1))"
proof -
  obtain t3 where sod: "stage_or_delete w addon = (Inr (staged_package addon), t3)"
    using stage_or_delete_result [of w addon] by (cases "stage_or_delete w addon") simp
  obtain launched t4 where la: "launch_anki w anki_exe anki_base (staged_package addon) = (launched, t4)"
    by (cases "launch_anki w anki_exe anki_base (staged_package addon)")
  show ?thesis
    using assms by (simp add: main_def sod la)
qed

text \<open>A run that returns has passed the argument checks and has left the wait loop.\<close>

lemma main_returns:
  assumes "main w program_name [a1, anki_exe, anki_base, addon] = Some (tr, st)"
    and "parse_pid a1 \<noteq> 0"
  shows "\<exists>u. wait_loop w (parse_pid a1) 0 [Printf (waiting_message (parse_pid a1))] =
               Some (Printf (waiting_message (parse_pid a1)) # u)
             \<and> (\<forall>e \<in> set u. is_wait_event e)"
proof (cases "wait_loop w (parse_pid a1) 0 [Printf (waiting_message (parse_pid a1))]")
  case None
  from main_never_returns [OF assms(2) this] assms(1) show ?thesis
    by simp
next
  case (Some y)
  from wait_loop_events [OF this] Some show ?thesis
    by auto
qed

lemma main_exit_0_pid:
  assumes "main w program_name [a1, anki_exe, anki_base, addon] = Some (tr, Exit 0)"
  shows "parse_pid a1 \<noteq> 0"
proof
  assume "parse_pid a1 = 0"
  then have "main w program_name [a1, anki_exe, anki_base, addon] =
      Some ([Printf (''Error: Invalid PID'' @ [newline])], Exit 1)"
    using main_invalid_pid [of "[a1, anki_exe, anki_base, addon]" w program_name] by simp
  with assms show False by simp
qed

lemma main_run_launch_events:
  assumes "parse_pid a1 \<noteq> 0"
    and "main w program_name [a1, anki_exe, anki_base, addon] = Some (tr, st)"
  shows "CreateProcessA (launch_command anki_exe anki_base (staged_package addon)) \<in> set tr"
    and "CreateProcessA c \<in> set tr \<Longrightarrow>
           c = launch_command anki_exe anki_base (staged_package addon)"
    and "st = Exit (if create_process_a w (launch_command anki_exe anki_base (staged_package addon))
                       = None then 1 else 0)"
    and "last tr = Printf (if create_process_a w
                                (launch_command anki_exe anki_base (staged_package addon)) = None
                           then launch_error else launch_success)"
proof -
  from main_returns [OF assms(2) assms(1)] obtain u where
    w: "wait_loop w (parse_pid a1) 0 [Printf (waiting_message (parse_pid a1))] =
               Some (Printf (waiting_message (parse_pid a1)) # u)"
    and u: "\<forall>e \<in> set u. is_wait_event e"
    by blast
  from main_after_wait [OF assms(1) w, of program_name anki_exe anki_base addon] assms(2)
  have tr: "tr = (Printf (waiting_message (parse_pid a1)) # u) @ [Printf (gone_message (parse_pid a1))]
             @ snd (stage_or_delete w addon)
             @ snd (launch_anki w anki_exe anki_base (staged_package addon))
             @ [Printf (if fst (launch_anki w anki_exe anki_base (staged_package addon))
                        then launch_success else launch_error)]"
    and st: "st = Exit (if fst (launch_anki w anki_exe anki_base (staged_package addon)) then 0 else 1)"
    by simp_all
  show "CreateProcessA (launch_command anki_exe anki_base (staged_package addon)) \<in> set tr"
    using launch_anki_creates [of anki_exe anki_base "staged_package addon" w] by (simp add: tr)
  show "st = Exit (if create_process_a w (launch_command anki_exe anki_base (staged_package addon))
                       = None then 1 else 0)"
    by (simp add: st launch_anki_result)
  show "last tr = Printf (if create_process_a w
                                (launch_command anki_exe anki_base (staged_package addon)) = None
                           then launch_error else launch_success)"
    by (simp add: tr launch_anki_result)
  assume c: "CreateProcessA c \<in> set tr"
  have "CreateProcessA c \<notin> set u"
    using u by auto
  moreover have "CreateProcessA c \<notin> set (snd (stage_or_delete w addon))"
    using stage_or_delete_quiet [of w addon] by auto
  ultimately have "CreateProcessA c \<in> set (snd (launch_anki w anki_exe anki_base (staged_package addon)))"
    using c by (auto simp: tr)
  then show "c = launch_command anki_exe anki_base (staged_package addon)"
    by (rule launch_anki_only_command)
qed

lemma main_run_delete_events:
  assumes "parse_pid a1 \<noteq> 0"
    and "main w program_name [a1, anki_exe, anki_base, addon] = Some (tr, st)"
  shows "suffix package_extension addon \<Longrightarrow> \<forall>e \<in> set tr. \<not> is_delete_event e"
    and "\<not> suffix package_extension addon \<Longrightarrow>
           \<exists>pre post. tr = pre @ [Printf (deleting_message addon)] @ snd (send_to_trash w addon)
                              @ post"
proof -
  from main_returns [OF assms(2) assms(1)] obtain u where
    w: "wait_loop w (parse_pid a1) 0 [Printf (waiting_message (parse_pid a1))] =
               Some (Printf (waiting_message (parse_pid a1)) # u)"
    and u: "\<forall>e \<in> set u. is_wait_event e"
    by blast
  from main_after_wait [OF assms(1) w, of program_name anki_exe anki_base addon] assms(2)
  have tr: "tr = (Printf (waiting_message (parse_pid a1)) # u) @ [Printf (gone_message (parse_pid a1))]
             @ snd (stage_or_delete w addon)
             @ snd (launch_anki w anki_exe anki_base (staged_package addon))
             @ [Printf (if fst (launch_anki w anki_exe anki_base (staged_package addon))
                        then launch_success else launch_error)]"
    by simp
  {
    assume "suffix package_extension addon"
    then have "snd (stage_or_delete w addon) = [Printf (installing_message addon)]"
      by (simp add: stage_or_delete_package)
    then show "\<forall>e \<in> set tr. \<not> is_delete_event e"
      using u wait_event_not_launch launch_anki_quiet [of w anki_exe anki_base "staged_package addon"]
      by (auto simp: tr)
  }
  {
    assume "\<not> suffix package_extension addon"
    then have "snd (stage_or_delete w addon) =
        [Printf (deleting_message addon)] @ snd (send_to_trash w addon)
        @ (if \<not> fst (send_to_trash w addon) then [Printf delete_warning] else [])"
      by (simp add: stage_or_delete_directory)
    then have "tr = ((Printf (waiting_message (parse_pid a1)) # u) @ [Printf (gone_message (parse_pid a1))])
        @ [Printf (deleting_message addon)] @ snd (send_to_trash w addon)
        @ ((if \<not> fst (send_to_trash w addon) then [Printf delete_warning] else [])
             @ snd (launch_anki w anki_exe anki_base (staged_package addon))
             @ [Printf (if fst (launch_anki w anki_exe anki_base (staged_package addon))
                        then launch_success else launch_error)])"
      by (simp add: tr)
    then show "\<exists>pre post. tr = pre @ [Printf (deleting_message addon)] @ snd (send_to_trash w addon)
                              @ post"
      by blast
  }
qed

lemma main_run_delete_failed:
  assumes "parse_pid a1 \<noteq> 0"
    and "wait_loop w (parse_pid a1) 0 [Printf (waiting_message (parse_pid a1))] = Some t1"
    and "\<not> suffix package_extension addon"
    and "\<not> fst (send_to_trash w addon)"
  shows "\<exists>pre post st.
           main w program_name [a1, anki_exe, anki_base, addon] =
             Some (pre @ snd (send_to_trash w addon) @ [Printf delete_warning]
                     @ snd (launch_anki w anki_exe anki_base None) @ post, st)"
proof -
  from assms(3) have sp: "staged_package addon = None"
    by (simp add: staged_package_def)
  from assms(3,4) have sod: "snd (stage_or_delete w addon) =
      [Printf (deleting_message addon)] @ snd (send_to_trash w addon) @ [Printf delete_warning]"
    by (simp add: stage_or_delete_directory)
  have "main w program_name [a1, anki_exe, anki_base, addon] =
     Some ((t1 @ [Printf (gone_message (parse_pid a1)), Printf (deleting_message addon)])
             @ snd (send_to_trash w addon) @ [Printf delete_warning]
             @ snd (launch_anki w anki_exe anki_base None)
             @ [Printf (if fst (launch_anki w anki_exe anki_base None)
                        then launch_success else launch_error)],
           Exit (if fst (launch_anki w anki_exe anki_base None) then 0 else 1))"
    using main_after_wait [OF assms(1,2), of program_name anki_exe anki_base addon]
    by (simp add: sp sod)
  then show ?thesis
    by blast
qed

section \<open>Deleting with a fallback (claim C1)\<close>

text \<open>
  Claim C1. For every path, \<open>send_to_trash\<close> tries the recycle bin
  (\<open>SHFileOperationW\<close>) whenever the path was converted, and then behaves as follows. When the
  recycle bin reports success, the result is success and neither \<open>DeleteFileA\<close> nor
  \<open>RemoveDirectoryA\<close> is called. When it reports failure, \<open>DeleteFileA\<close> is called
  next: if it succeeds the result is success and \<open>RemoveDirectoryA\<close> is not called;
  otherwise \<open>RemoveDirectoryA\<close> is called, and the result is success if it succeeds and
  failure if it fails too. (When the path cannot be converted or no memory is left,
  no delete is made at all and the result is failure.) When \<open>send_to_trash\<close> fails in a run
  of \<open>main\<close>, the run prints the warning and goes on to the launch: the events of
  \<open>launch_anki\<close>, with the call of \<open>CreateProcessA\<close>, follow the warning.
\<close>

theorem delete_with_fallback:
  "(path_converted w path \<and> sh_file_operation_w w path = 0 \<longrightarrow>
      send_to_trash w path =
        (True, [MultiByteToWideChar path, MultiByteToWideChar path, SHFileOperationW path]))
   \<and> (path_converted w path \<and> sh_file_operation_w w path \<noteq> 0 \<and> delete_file_a w path \<longrightarrow>
        send_to_trash w path =
          (True, [MultiByteToWideChar path, MultiByteToWideChar path, SHFileOperationW path,
                  Printf recycle_failed_message, DeleteFileA path]))
   \<and> (path_converted w path \<and> sh_file_operation_w w path \<noteq> 0 \<and> \<not> delete_file_a w path
        \<and> remove_directory_a w path \<longrightarrow>
        send_to_trash w path =
          (True, [MultiByteToWideChar path, MultiByteToWideChar path, SHFileOperationW path,
                  Printf recycle_failed_message, DeleteFileA path, RemoveDirectoryA path]))
   \<and> (path_converted w path \<and> sh_file_operation_w w path \<noteq> 0 \<and> \<not> delete_file_a w path
        \<and> \<not> remove_directory_a w path \<longrightarrow>
        send_to_trash w path =
          (False, [MultiByteToWideChar path, MultiByteToWideChar path, SHFileOperationW path,
                   Printf recycle_failed_message, DeleteFileA path, RemoveDirectoryA path]))
   \<and> (\<not> path_converted w path \<longrightarrow>
        send_to_trash w path = (False, [MultiByteToWideChar path]))
   \<and> (parse_pid a1 \<noteq> 0
        \<and> wait_loop w (parse_pid a1) 0 [Printf (waiting_message (parse_pid a1))] = Some t1
        \<and> \<not> suffix ''.ankiaddon'' path
        \<and> \<not> fst (send_to_trash w path) \<longrightarrow>
      (\<exists>pre post st.
         main w program_name [a1, anki_exe, anki_base, path] =
           Some (pre @ snd (send_to_trash w path) @ [Printf delete_warning]
                   @ snd (launch_anki w anki_exe anki_base None) @ post, st))
      \<and> CreateProcessA (launch_command anki_exe anki_base None)
          \<in> set (snd (launch_anki w anki_exe anki_base None)))"
proof (intro conjI impI)
  assume "path_converted w path \<and> sh_file_operation_w w path = 0"
  then show "send_to_trash w path =
        (True, [MultiByteToWideChar path, MultiByteToWideChar path, SHFileOperationW path])"
    by (simp add: send_to_trash_recycled)
next
  assume "path_converted w path \<and> sh_file_operation_w w path \<noteq> 0 \<and> delete_file_a w path"
  then show "send_to_trash w path =
          (True, [MultiByteToWideChar path, MultiByteToWideChar path, SHFileOperationW path,
                  Printf recycle_failed_message, DeleteFileA path])"
    by (simp add: send_to_trash_fallback)
next
  assume "path_converted w path \<and> sh_file_operation_w w path \<noteq> 0 \<and> \<not> delete_file_a w path
        \<and> remove_directory_a w path"
  then show "send_to_trash w path =
          (True, [MultiByteToWideChar path, MultiByteToWideChar path, SHFileOperationW path,
                  Printf recycle_failed_message, DeleteFileA path, RemoveDirectoryA path])"
    by (simp add: send_to_trash_fallback)
next
  assume "path_converted w path \<and> sh_file_operation_w w path \<noteq> 0 \<and> \<not> delete_file_a w path
        \<and> \<not> remove_directory_a w path"
  then show "send_to_trash w path =
          (False, [MultiByteToWideChar path, MultiByteToWideChar path, SHFileOperationW path,
                   Printf recycle_failed_message, DeleteFileA path, RemoveDirectoryA path])"
    by (simp add: send_to_trash_fallback)
next
  assume "\<not> path_converted w path"
  then show "send_to_trash w path = (False, [MultiByteToWideChar path])"
    by (rule send_to_trash_not_converted)
next
  assume a: "parse_pid a1 \<noteq> 0
        \<and> wait_loop w (parse_pid a1) 0 [Printf (waiting_message (parse_pid a1))] = Some t1
        \<and> \<not> suffix ''.ankiaddon'' path
        \<and> \<not> fst (send_to_trash w path)"
  then have "\<not> suffix package_extension path"
    by (simp add: package_extension_def)
  with a show "\<exists>pre post st.
         main w program_name [a1, anki_exe, anki_base, path] =
           Some (pre @ snd (send_to_trash w path) @ [Printf delete_warning]
                   @ snd (launch_anki w anki_exe anki_base None) @ post, st)"
    using main_run_delete_failed [of a1 w t1 path program_name anki_exe anki_base] by blast
  show "CreateProcessA (launch_command anki_exe anki_base None)
          \<in> set (snd (launch_anki w anki_exe anki_base None))"
    by (rule launch_anki_creates)
qed

theorem delete_with_fallback_witness:
  "path_converted os_quiet ''addon''
   \<and> sh_file_operation_w os_quiet ''addon'' = 0
   \<and> send_to_trash os_quiet ''addon'' =
     (True, [MultiByteToWideChar ''addon'', MultiByteToWideChar ''addon'', SHFileOperationW ''addon''])
   \<and> sh_file_operation_w (os_no_recycle_bin True False) ''addon'' = 2
   \<and> send_to_trash (os_no_recycle_bin True False) ''addon'' =
       (True, [MultiByteToWideChar ''addon'', MultiByteToWideChar ''addon'',
               SHFileOperationW ''addon'', Printf recycle_failed_message,
               DeleteFileA ''addon''])
   \<and> send_to_trash (os_no_recycle_bin False True) ''addon'' =
       (True, [MultiByteToWideChar ''addon'', MultiByteToWideChar ''addon'',
               SHFileOperationW ''addon'', Printf recycle_failed_message,
               DeleteFileA ''addon'', RemoveDirectoryA ''addon''])
   \<and> send_to_trash (os_no_recycle_bin False False) ''addon'' =
       (False, [MultiByteToWideChar ''addon'', MultiByteToWideChar ''addon'',
                SHFileOperationW ''addon'', Printf recycle_failed_message,
                DeleteFileA ''addon'', RemoveDirectoryA ''addon''])
   \<and> \<not> path_converted os_no_memory ''addon''
   \<and> send_to_trash os_no_memory ''addon'' = (False, [MultiByteToWideChar ''addon''])
   \<and> CreateProcessA (launch_command ''anki.exe'' ''base'' None)
          \<in> set (snd (launch_anki (os_no_recycle_bin False False) ''anki.exe'' ''base'' None))
   \<and> main (os_no_recycle_bin False False) ''restart_anki.exe''
         [''1234'', ''anki.exe'', ''base'', ''addon''] =
       Some ([Printf (waiting_message 1234), OpenProcess 1234, Printf (gone_message 1234),
              Printf (deleting_message ''addon''),
              MultiByteToWideChar ''addon'', MultiByteToWideChar ''addon'',
              SHFileOperationW ''addon'', Printf recycle_failed_message,
              DeleteFileA ''addon'', RemoveDirectoryA ''addon'',
              Printf delete_warning,
              Printf (''Executing: '' @ command_without_package ''anki.exe'' ''base''
                        @ [newline]),
              CreateProcessA (command_without_package ''anki.exe'' ''base''),
              CloseHandle 3, CloseHandle 4, Printf launch_success],
             Exit 0)"
proof -
  have c: "path_converted os_quiet ''addon''" "path_converted (os_no_recycle_bin x y) ''addon''"
    "\<not> path_converted os_no_memory ''addon''" for x y
    by (simp_all add: path_converted_def os_no_recycle_bin_def os_no_memory_def os_quiet_def)
  have r: "sh_file_operation_w os_quiet ''addon'' = 0"
    "sh_file_operation_w (os_no_recycle_bin x y) ''addon'' = 2"
    "delete_file_a (os_no_recycle_bin x y) ''addon'' = x"
    "remove_directory_a (os_no_recycle_bin x y) ''addon'' = y" for x y
    by (simp_all add: os_no_recycle_bin_def os_quiet_def)
  have n: "sh_file_operation_w (os_no_recycle_bin x y) ''addon'' \<noteq> 0" for x y
    by (simp add: r)
  have d1: "send_to_trash os_quiet ''addon'' =
     (True, [MultiByteToWideChar ''addon'', MultiByteToWideChar ''addon'', SHFileOperationW ''addon''])"
    using delete_with_fallback [of os_quiet "''addon''"] c(1) r(1) by blast
  have d2: "send_to_trash (os_no_recycle_bin True False) ''addon'' =
       (True, [MultiByteToWideChar ''addon'', MultiByteToWideChar ''addon'',
               SHFileOperationW ''addon'', Printf recycle_failed_message,
               DeleteFileA ''addon''])"
    using delete_with_fallback [of "os_no_recycle_bin True False" "''addon''"] c(2) n r(3)
    by blast
  have d3: "send_to_trash (os_no_recycle_bin False True) ''addon'' =
       (True, [MultiByteToWideChar ''addon'', MultiByteToWideChar ''addon'',
               SHFileOperationW ''addon'', Printf recycle_failed_message,
               DeleteFileA ''addon'', RemoveDirectoryA ''addon''])"
    using delete_with_fallback [of "os_no_recycle_bin False True" "''addon''"] c(2) n r(3,4)
    by blast
  have d4: "send_to_trash (os_no_recycle_bin False False) ''addon'' =
       (False, [MultiByteToWideChar ''addon'', MultiByteToWideChar ''addon'',
                SHFileOperationW ''addon'', Printf recycle_failed_message,
                DeleteFileA ''addon'', RemoveDirectoryA ''addon''])"
    using delete_with_fallback [of "os_no_recycle_bin False False" "''addon''"] c(2) n r(3,4)
    by blast
  have d5: "send_to_trash os_no_memory ''addon'' = (False, [MultiByteToWideChar ''addon''])"
    using delete_with_fallback [of os_no_memory "''addon''"] c(3) by blast
  have p: "parse_pid ''1234'' = 1234"
    by (rule parse_pid_1234)
  have w: "wait_loop (os_no_recycle_bin False False) 1234 0 [Printf (waiting_message 1234)] =
      Some [Printf (waiting_message 1234), OpenProcess 1234]"
    by (simp add: wait_loop_at_once os_no_recycle_bin_def os_quiet_def)
  have s: "\<not> suffix ''.ankiaddon'' ''addon''"
    by (simp add: suffix_def)
  have k: "launch_command ''anki.exe'' ''base'' None = command_without_package ''anki.exe'' ''base''"
    by (simp add: launch_command_def snprintf_def command_without_package_def)
  have l: "launch_anki (os_no_recycle_bin False False) ''anki.exe'' ''base'' None =
      (True, [Printf (''Executing: '' @ command_without_package ''anki.exe'' ''base'' @ [newline]),
              CreateProcessA (command_without_package ''anki.exe'' ''base''),
              CloseHandle 3, CloseHandle 4])"
    by (simp add: launch_anki_def Let_def k os_no_recycle_bin_def os_quiet_def)
  have m: "main (os_no_recycle_bin False False) ''restart_anki.exe''
         [''1234'', ''anki.exe'', ''base'', ''addon''] =
       Some ([Printf (waiting_message 1234), OpenProcess 1234, Printf (gone_message 1234),
              Printf (deleting_message ''addon''),
              MultiByteToWideChar ''addon'', MultiByteToWideChar ''addon'',
              SHFileOperationW ''addon'', Printf recycle_failed_message,
              DeleteFileA ''addon'', RemoveDirectoryA ''addon'',
              Printf delete_warning,
              Printf (''Executing: '' @ command_without_package ''anki.exe'' ''base''
                        @ [newline]),
              CreateProcessA (command_without_package ''anki.exe'' ''base''),
              CloseHandle 3, CloseHandle 4, Printf launch_success],
             Exit 0)"
    using main_after_wait [of "''1234''" "os_no_recycle_bin False False"
        "[Printf (waiting_message 1234), OpenProcess 1234]"
        "''restart_anki.exe''" "''anki.exe''" "''base''" "''addon''"] s
    by (simp add: p w staged_package_def package_extension_def stage_or_delete_directory d4 l)
  have a: "parse_pid ''1234'' \<noteq> 0
        \<and> wait_loop (os_no_recycle_bin False False) (parse_pid ''1234'') 0
              [Printf (waiting_message (parse_pid ''1234''))] =
            Some [Printf (waiting_message 1234), OpenProcess 1234]
        \<and> \<not> suffix ''.ankiaddon'' ''addon''
        \<and> \<not> fst (send_to_trash (os_no_recycle_bin False False) ''addon'')"
    by (simp add: p w s d4)
  have f: "CreateProcessA (launch_command ''anki.exe'' ''base'' None)
          \<in> set (snd (launch_anki (os_no_recycle_bin False False) ''anki.exe'' ''base'' None))"
    using delete_with_fallback [of "os_no_recycle_bin False False" "''addon''" "''1234''"
      "[Printf (waiting_message 1234), OpenProcess 1234]" "''restart_anki.exe''" "''anki.exe''"
      "''base''"] a by blast
  from c(1) r(1) d1 r(2) [of True False] d2 d3 d4 c(3) d5 f m show ?thesis
    by (intro conjI)
qed

section \<open>Package or directory (claim C2)\<close>

text \<open>
  Claim C2. The fourth argument is tested for the suffix \<open>.ankiaddon\<close>, character by
  character, so upper and lower case differ. Every run with four arguments and a pid other than
  0 whose wait step returns takes exactly one of two ways. When the argument has the suffix,
  it becomes the package file: the run contains no call that converts or deletes a path, and
  the command passed to \<open>CreateProcessA\<close> is the one built with this package. Otherwise the
  package file stays null: the run contains the events of \<open>send_to_trash\<close> on the argument,
  and the only command passed to \<open>CreateProcessA\<close> is the one built without a package.
\<close>

theorem package_or_directory:
  assumes "parse_pid a1 \<noteq> 0"
    and "wait_loop w (parse_pid a1) 0 [Printf (waiting_message (parse_pid a1))] = Some t1"
  shows "\<exists>tr st.
      main w program_name [a1, anki_exe, anki_base, addon] = Some (tr, st)
      \<and> ends_with (Some addon) (Some ''.ankiaddon'') = Inr (suffix ''.ankiaddon'' addon)
      \<and> (suffix ''.ankiaddon'' addon \<longrightarrow>
           fst (stage_or_delete w addon) = Inr (Some addon)
           \<and> (\<forall>e \<in> set tr. \<not> is_delete_event e)
           \<and> CreateProcessA (snprintf 2048 (command_with_package anki_exe anki_base addon))
               \<in> set tr)
      \<and> (\<not> suffix ''.ankiaddon'' addon \<longrightarrow>
           fst (stage_or_delete w addon) = Inr None
           \<and> (\<exists>pre post. tr = pre @ [Printf (deleting_message addon)]
                                  @ snd (send_to_trash w addon) @ post)
           \<and> MultiByteToWideChar addon \<in> set tr
           \<and> CreateProcessA (snprintf 2048 (command_without_package anki_exe anki_base))
               \<in> set tr
           \<and> (\<forall>c. CreateProcessA c \<in> set tr \<longrightarrow>
                  c = snprintf 2048 (command_without_package anki_exe anki_base)))"
proof -
  from main_after_wait [OF assms, of program_name anki_exe anki_base addon]
  obtain tr st where m: "main w program_name [a1, anki_exe, anki_base, addon] = Some (tr, st)"
    by blast
  have e: "ends_with (Some addon) (Some ''.ankiaddon'') = Inr (suffix ''.ankiaddon'' addon)"
    by (rule ends_with_strings)
  have cmd: "launch_command anki_exe anki_base (staged_package addon) =
      snprintf 2048 (if suffix ''.ankiaddon'' addon then command_with_package anki_exe anki_base addon
         else command_without_package anki_exe anki_base)"
    using formatted_command_staged [of anki_exe anki_base addon]
    by (simp add: launch_command_snprintf package_extension_def)
  have p: "fst (stage_or_delete w addon) = Inr (Some addon)
           \<and> (\<forall>e \<in> set tr. \<not> is_delete_event e)
           \<and> CreateProcessA (snprintf 2048 (command_with_package anki_exe anki_base addon))
               \<in> set tr"
    if s: "suffix ''.ankiaddon'' addon"
  proof -
    from s have s': "suffix package_extension addon"
      by (simp add: package_extension_def)
    then have 1: "fst (stage_or_delete w addon) = Inr (Some addon)"
      by (simp add: stage_or_delete_package)
    have 2: "\<forall>e \<in> set tr. \<not> is_delete_event e"
      using main_run_delete_events(1) [OF assms(1) m s'] .
    have 3: "CreateProcessA (snprintf 2048 (command_with_package anki_exe anki_base addon)) \<in> set tr"
      using main_run_launch_events(1) [OF assms(1) m] s by (simp add: cmd)
    from 1 2 3 show ?thesis by (intro conjI)
  qed
  have d: "fst (stage_or_delete w addon) = Inr None
           \<and> (\<exists>pre post. tr = pre @ [Printf (deleting_message addon)]
                                  @ snd (send_to_trash w addon) @ post)
           \<and> MultiByteToWideChar addon \<in> set tr
           \<and> CreateProcessA (snprintf 2048 (command_without_package anki_exe anki_base))
               \<in> set tr
           \<and> (\<forall>c. CreateProcessA c \<in> set tr \<longrightarrow>
                  c = snprintf 2048 (command_without_package anki_exe anki_base))"
    if s: "\<not> suffix ''.ankiaddon'' addon"
  proof -
    from s have s': "\<not> suffix package_extension addon"
      by (simp add: package_extension_def)
    then have 1: "fst (stage_or_delete w addon) = Inr None"
      by (simp add: stage_or_delete_directory)
    from main_run_delete_events(2) [OF assms(1) m s']
    have 2: "\<exists>pre post. tr = pre @ [Printf (deleting_message addon)]
                                  @ snd (send_to_trash w addon) @ post" .
    then have 3: "MultiByteToWideChar addon \<in> set tr"
      using send_to_trash_first [of addon w] by auto
    have 4: "CreateProcessA (snprintf 2048 (command_without_package anki_exe anki_base)) \<in> set tr"
      using main_run_launch_events(1) [OF assms(1) m] s by (simp add: cmd)
    have 5: "\<forall>c. CreateProcessA c \<in> set tr \<longrightarrow>
                  c = snprintf 2048 (command_without_package anki_exe anki_base)"
      using main_run_launch_events(2) [OF assms(1) m] s by (simp add: cmd)
    from 1 2 3 4 5 show ?thesis by (intro conjI)
  qed
  from m e p d show ?thesis
    by blast
qed

theorem package_or_directory_witness:
  "parse_pid ''1234'' \<noteq> 0
   \<and> wait_loop os_quiet (parse_pid ''1234'') 0 [Printf (waiting_message (parse_pid ''1234''))] =
       Some [Printf (waiting_message 1234), OpenProcess 1234]
   \<and> suffix ''.ankiaddon'' ''new.ankiaddon''
   \<and> fst (stage_or_delete os_quiet ''new.ankiaddon'') = Inr (Some ''new.ankiaddon'')
   \<and> \<not> suffix ''.ankiaddon'' ''NEW.ANKIADDON''
   \<and> fst (stage_or_delete os_quiet ''NEW.ANKIADDON'') = Inr None
   \<and> ends_with (Some ''NEW.ANKIADDON'') (Some ''.ankiaddon'') = Inr False"
proof -
  have p: "parse_pid ''1234'' = 1234"
    by (rule parse_pid_1234)
  have w: "wait_loop os_quiet 1234 0 [Printf (waiting_message 1234)] =
      Some [Printf (waiting_message 1234), OpenProcess 1234]"
    by (simp add: wait_loop_at_once os_quiet_def)
  have a: "parse_pid ''1234'' \<noteq> 0"
    by (simp add: p)
  have b: "wait_loop os_quiet (parse_pid ''1234'') 0 [Printf (waiting_message (parse_pid ''1234''))] =
      Some [Printf (waiting_message 1234), OpenProcess 1234]"
    by (simp add: p w)
  have s1: "suffix ''.ankiaddon'' ''new.ankiaddon''"
    by (simp add: suffix_def)
  have s2: "\<not> suffix ''.ankiaddon'' ''NEW.ANKIADDON''"
    by (simp add: suffix_def)
  from s1 package_or_directory [OF a b, of "''restart_anki.exe''" "''anki.exe''" "''base''"
      "''new.ankiaddon''"]
  have c1: "fst (stage_or_delete os_quiet ''new.ankiaddon'') = Inr (Some ''new.ankiaddon'')"
    by blast
  from s2 package_or_directory [OF a b, of "''restart_anki.exe''" "''anki.exe''" "''base''"
      "''NEW.ANKIADDON''"]
  have c2: "fst (stage_or_delete os_quiet ''NEW.ANKIADDON'') = Inr None
      \<and> ends_with (Some ''NEW.ANKIADDON'') (Some ''.ankiaddon'') = Inr False"
    by auto
  from a b s1 s2 c1 c2 show ?thesis
    by (intro conjI) simp_all
qed

section \<open>Usage errors (claim C3)\<close>

text \<open>
  Claim C3. When the number of arguments is not four, or the pid argument is one that
  \<open>atol\<close> reads as 0, the program prints an error to standard output and returns 1, and does
  nothing else: no wait, no delete, no launch. \<open>atol\<close> reads 0 from the string \<open>"0"\<close> and
  from every string in which the white space and the optional sign are followed by no digit
  or by zeros only, up to the first character that is not a digit.
\<close>

theorem usage_errors:
  assumes "length args \<noteq> 4
     \<or> (length args = 4 \<and> (\<forall>c \<in> set (leading_digits (args ! 0)). c = CHR ''0''))"
  shows "\<exists>tr. main w program_name args = Some (tr, Exit 1)
            \<and> tr \<noteq> [] \<and> (\<forall>e \<in> set tr. is_printf e)"
proof (cases "length args = 4")
  case False
  then have "main w program_name args = Some (print_usage program_name, Exit 1)"
    by (rule main_usage)
  moreover have "print_usage program_name \<noteq> []"
    by (simp add: print_usage_def)
  ultimately show ?thesis
    using print_usage_events by blast
next
  case True
  with assms have "parse_pid (args ! 0) = 0"
    by (simp add: parse_pid_zero_iff)
  with True have "main w program_name args =
      Some ([Printf (''Error: Invalid PID'' @ [newline])], Exit 1)"
    by (rule main_invalid_pid)
  then show ?thesis by simp
qed

theorem usage_errors_witness:
  "main os_quiet ''restart_anki.exe'' [''1234'', ''anki.exe'', ''base''] =
     Some (print_usage ''restart_anki.exe'', Exit 1)
   \<and> main os_quiet ''restart_anki.exe'' [''0'', ''anki.exe'', ''base'', ''addon''] =
       Some ([Printf (''Error: Invalid PID'' @ [newline])], Exit 1)
   \<and> main os_quiet ''restart_anki.exe'' [''abc'', ''anki.exe'', ''base'', ''addon''] =
       Some ([Printf (''Error: Invalid PID'' @ [newline])], Exit 1)
   \<and> leading_digits ''0'' = ''0'' \<and> leading_digits ''abc'' = ''''"
proof -
  have d: "leading_digits ''0'' = ''0''" "leading_digits ''abc'' = ''''"
    by (simp_all add: leading_digits_def isspace_def isdigit_def)
  have p: "parse_pid ''0'' = 0" "parse_pid ''abc'' = 0"
    by (simp_all add: parse_pid_zero_iff d)
  from d p
    usage_errors [of "[''1234'', ''anki.exe'', ''base'']" os_quiet "''restart_anki.exe''"]
    usage_errors [of "[''0'', ''anki.exe'', ''base'', ''addon'']" os_quiet "''restart_anki.exe''"]
    usage_errors [of "[''abc'', ''anki.exe'', ''base'', ''addon'']" os_quiet "''restart_anki.exe''"]
  show ?thesis
    by (simp add: main_def)
qed

text \<open>
  The claim as the specification words it asks for the error on every pid argument that is not
  a number. \<open>atol\<close> stops at the first character that is not a digit and keeps what it has
  read: \<open>"12abc"\<close> is not a number, and the program waits for process 12 and launches.
\<close>

theorem usage_errors_counterexample:
  "\<not> list_all isdigit ''12abc''
   \<and> parse_pid ''12abc'' = 12
   \<and> main os_quiet ''restart_anki.exe'' [''12abc'', ''anki.exe'', ''base'', ''addon.ankiaddon''] =
       Some ([Printf (waiting_message 12), OpenProcess 12, Printf (gone_message 12),
              Printf (installing_message ''addon.ankiaddon''),
              Printf (''Executing: '' @ command_with_package ''anki.exe'' ''base'' ''addon.ankiaddon''
                        @ [newline]),
              CreateProcessA (command_with_package ''anki.exe'' ''base'' ''addon.ankiaddon''),
              CloseHandle 3, CloseHandle 4, Printf launch_success],
             Exit 0)"
proof -
  have n: "\<not> list_all isdigit ''12abc''"
    by (simp add: isdigit_def)
  have p: "parse_pid ''12abc'' = 12"
    by (simp add: parse_pid_def atol_def isspace_def isdigit_def clamp_long_def LONG_MAX_def
        LONG_MIN_def)
  have w: "wait_loop os_quiet 12 0 [Printf (waiting_message 12)] =
      Some [Printf (waiting_message 12), OpenProcess 12]"
    by (simp add: wait_loop_at_once os_quiet_def)
  have s: "suffix package_extension ''addon.ankiaddon''"
    by (simp add: package_extension_def suffix_def)
  have c: "launch_command ''anki.exe'' ''base'' (Some ''addon.ankiaddon'') =
      command_with_package ''anki.exe'' ''base'' ''addon.ankiaddon''"
    by (simp add: launch_command_def snprintf_def command_with_package_def)
  have l: "launch_anki os_quiet ''anki.exe'' ''base'' (Some ''addon.ankiaddon'') =
      (True, [Printf (''Executing: '' @ command_with_package ''anki.exe'' ''base'' ''addon.ankiaddon''
                        @ [newline]),
              CreateProcessA (command_with_package ''anki.exe'' ''base'' ''addon.ankiaddon''),
              CloseHandle 3, CloseHandle 4])"
    by (simp add: launch_anki_def Let_def c os_quiet_def)
  have m: "main os_quiet ''restart_anki.exe'' [''12abc'', ''anki.exe'', ''base'', ''addon.ankiaddon''] =
       Some ([Printf (waiting_message 12), OpenProcess 12, Printf (gone_message 12),
              Printf (installing_message ''addon.ankiaddon''),
              Printf (''Executing: '' @ command_with_package ''anki.exe'' ''base'' ''addon.ankiaddon''
                        @ [newline]),
              CreateProcessA (command_with_package ''anki.exe'' ''base'' ''addon.ankiaddon''),
              CloseHandle 3, CloseHandle 4, Printf launch_success],
             Exit 0)"
    using main_after_wait [of "''12abc''" os_quiet "[Printf (waiting_message 12), OpenProcess 12]"
        "''restart_anki.exe''" "''anki.exe''" "''base''" "''addon.ankiaddon''"]
    by (simp add: p w staged_package_def s stage_or_delete_package l)
  from n p m show ?thesis by simp
qed

section \<open>The suffix test (claim C4)\<close>

text \<open>
  Claim C4. \<open>ends_with\<close> is the suffix test on the contents of the two strings:
  \<open>ends_with("foo.ankiaddon", ".ankiaddon")\<close> is true, \<open>ends_with("foo.zip", ".ankiaddon")\<close>
  and \<open>ends_with("", ".ankiaddon")\<close> are false. A null string or a null suffix gives false.
  An empty string gives false for every suffix but the empty one. An empty suffix is a suffix
  of every string, so with a string that is not null it gives true. No input makes the
  function fault.
\<close>

theorem ends_with_behaviour:
  "ends_with (Some ''foo.ankiaddon'') (Some ''.ankiaddon'') = Inr True
   \<and> ends_with (Some ''foo.zip'') (Some ''.ankiaddon'') = Inr False
   \<and> ends_with (Some '''') (Some ''.ankiaddon'') = Inr False
   \<and> ends_with None sfx = Inr False
   \<and> ends_with str None = Inr False
   \<and> ends_with (Some '''') (Some t) = Inr (t = '''')
   \<and> ends_with (Some s) (Some '''') = Inr True
   \<and> ends_with (Some s) (Some t) = Inr (suffix t s)
   \<and> (\<exists>b. ends_with str sfx = Inr b)"
proof -
  have 1: "ends_with (Some ''foo.ankiaddon'') (Some ''.ankiaddon'') = Inr True"
    by (simp add: ends_with_def strlen_def ptr_add_def strcmp_def)
  have 2: "ends_with (Some ''foo.zip'') (Some ''.ankiaddon'') = Inr False"
    by (simp add: ends_with_def strlen_def)
  have 3: "ends_with (Some '''') (Some ''.ankiaddon'') = Inr False"
    by (simp add: ends_with_def strlen_def)
  have 4: "ends_with (Some '''') (Some t) = Inr (t = '''')"
    by (simp add: ends_with_strings)
  have 5: "ends_with (Some s) (Some '''') = Inr True"
    by (simp add: ends_with_strings)
  from 1 2 3 4 5 show ?thesis
    using ends_with_null ends_with_strings ends_with_never_faults by blast
qed

text \<open>
  The claim as the specification words it says that an empty suffix gives false; the code
  answers true for \<open>ends_with("foo", "")\<close>.
\<close>

theorem ends_with_empty_suffix_counterexample:
  "ends_with (Some ''foo'') (Some '''') = Inr True"
  by (simp add: ends_with_def strlen_def ptr_add_def strcmp_def)

section \<open>Waiting for a process that is not running (claim C5)\<close>




section \<open>Waiting for a running process (claim C6)\<close>

text \<open>
  Claim C6. When the process is found running in the rounds \<open>0, ..., n - 1\<close> and not in
  round \<open>n\<close>, the wait step returns after exactly these \<open>n + 1\<close> checks: each of the first
  \<open>n\<close> checks is followed by the message and by \<open>Sleep(500)\<close> before the next check, and the
  last check is the one that finds the process gone. In the run of \<open>main\<close> everything that
  deletes or launches comes after that last check. There is no bound on \<open>n\<close>: when the
  process is found running in every round, the wait step does not return and neither does
  \<open>main\<close>.
\<close>

theorem wait_until_gone:
  "((\<forall>j<n. fst (is_process_running w j pid)) \<and> \<not> fst (is_process_running w n pid) \<longrightarrow>
      wait_loop w pid 0 t =
        Some (t @ concat (map (waiting_round w pid) [0..<n]) @ snd (is_process_running w n pid))
      \<and> (\<forall>e \<in> set (concat (map (waiting_round w pid) [0..<n])
                       @ snd (is_process_running w n pid)). is_wait_event e)
      \<and> (parse_pid a1 = pid \<and> pid \<noteq> 0 \<longrightarrow>
           (\<exists>rest st.
              main w program_name [a1, anki_exe, anki_base, addon] =
                Some ([Printf (waiting_message pid)]
                        @ concat (map (waiting_round w pid) [0..<n])
                        @ snd (is_process_running w n pid)
                        @ [Printf (gone_message pid)] @ rest, st)
              \<and> (\<forall>e \<in> set rest. \<not> is_sleep e \<and> (\<forall>p. e \<noteq> OpenProcess p)))))
   \<and> ((\<forall>j. fst (is_process_running w j pid)) \<longrightarrow>
        wait_loop w pid 0 t = None
        \<and> (parse_pid a1 = pid \<and> pid \<noteq> 0 \<longrightarrow>
             main w program_name [a1, anki_exe, anki_base, addon] = None))"
proof (intro conjI impI)
  assume run: "(\<forall>j<n. fst (is_process_running w j pid)) \<and> \<not> fst (is_process_running w n pid)"
  then have w0: "wait_loop w pid 0 t =
        Some (t @ concat (map (waiting_round w pid) [0..<n]) @ snd (is_process_running w n pid))"
    for t
    using wait_loop_rounds [of n w 0 pid t] by simp
  show "wait_loop w pid 0 t =
        Some (t @ concat (map (waiting_round w pid) [0..<n]) @ snd (is_process_running w n pid))"
    by (rule w0)
  show "\<forall>e \<in> set (concat (map (waiting_round w pid) [0..<n])
                       @ snd (is_process_running w n pid)). is_wait_event e"
    by (rule wait_trace_events)
  assume pid: "parse_pid a1 = pid \<and> pid \<noteq> 0"
  with w0 have "wait_loop w (parse_pid a1) 0 [Printf (waiting_message (parse_pid a1))] =
        Some ([Printf (waiting_message pid)] @ concat (map (waiting_round w pid) [0..<n])
                @ snd (is_process_running w n pid))"
    by simp
  from main_after_wait [OF _ this, of program_name anki_exe anki_base addon] pid
  have "main w program_name [a1, anki_exe, anki_base, addon] =
      Some ([Printf (waiting_message pid)]
                        @ concat (map (waiting_round w pid) [0..<n])
                        @ snd (is_process_running w n pid)
                        @ [Printf (gone_message pid)]
                        @ (snd (stage_or_delete w addon)
             @ snd (launch_anki w anki_exe anki_base (staged_package addon))
             @ [Printf (if fst (launch_anki w anki_exe anki_base (staged_package addon))
                        then launch_success else launch_error)]),
           Exit (if fst (launch_anki w anki_exe anki_base (staged_package addon)) then 0 else 1))"
    by simp
  then show "\<exists>rest st.
              main w program_name [a1, anki_exe, anki_base, addon] =
                Some ([Printf (waiting_message pid)]
                        @ concat (map (waiting_round w pid) [0..<n])
                        @ snd (is_process_running w n pid)
                        @ [Printf (gone_message pid)] @ rest, st)
              \<and> (\<forall>e \<in> set rest. \<not> is_sleep e \<and> (\<forall>p. e \<noteq> OpenProcess p))"
    using after_wait_no_sleep by blast
next
  assume forever: "\<forall>j. fst (is_process_running w j pid)"
  then show "wait_loop w pid 0 t = None"
    by (rule wait_loop_never_returns)
  assume pid: "parse_pid a1 = pid \<and> pid \<noteq> 0"
  from forever have "wait_loop w pid 0 [Printf (waiting_message pid)] = None"
    by (rule wait_loop_never_returns)
  with pid show "main w program_name [a1, anki_exe, anki_base, addon] = None"
    using main_never_returns [of a1 w program_name anki_exe anki_base addon] by simp
qed

theorem wait_until_gone_witness:
  "wait_loop os_busy_twice 1234 0 [] =
     Some [OpenProcess 1234, GetExitCodeProcess 7, CloseHandle 7,
           Printf (still_running_message 1234), Sleep 500,
           OpenProcess 1234, GetExitCodeProcess 7, CloseHandle 7,
           Printf (still_running_message 1234), Sleep 500,
           OpenProcess 1234]
   \<and> wait_loop os_never_exits 1234 0 [] = None
   \<and> main os_never_exits ''restart_anki.exe'' [''1234'', ''anki.exe'', ''base'', ''addon''] = None"
proof -
  have r: "fst (is_process_running os_busy_twice j 1234) = (j < 2)" for j
    by (simp add: is_process_running_def os_busy_twice_def os_quiet_def)
  have h1: "(\<forall>j<2. fst (is_process_running os_busy_twice j 1234))
      \<and> \<not> fst (is_process_running os_busy_twice 2 1234)"
    by (simp add: r)
  have h2: "\<forall>j. fst (is_process_running os_never_exits j 1234)"
    by (simp add: is_process_running_def os_never_exits_def os_quiet_def)
  have 3: "parse_pid ''1234'' = 1234"
    by (rule parse_pid_1234)
  have s: "snd (is_process_running os_busy_twice j 1234) =
      (if j < 2 then [OpenProcess 1234, GetExitCodeProcess 7, CloseHandle 7]
       else [OpenProcess 1234])" for j
    by (simp add: is_process_running_def os_busy_twice_def os_quiet_def)
  have u: "[0..<2] = [0, Suc 0]"
    by (simp add: upt_conv_Cons)
  from h1 h2 3
    wait_until_gone [of 2 os_busy_twice 1234 "[]"]
    wait_until_gone [of _ os_never_exits 1234 "[]" "''1234''" "''restart_anki.exe''" "''anki.exe''"
      "''base''" "''addon''"]
  show ?thesis
    by (simp add: waiting_round_def s u)
qed

section \<open>The shape of the launch command (claim C7)\<close>

text \<open>
  Claim C7. In every run that ends with exit code 0, exactly one command is passed to
  \<open>CreateProcessA\<close>: the first 2047 characters of the text
  \<open>cmd /c start /B "" "<anki_exe>" -b "<anki_base>"\<close>, which is extended by
  \<open> "<package>"\<close> exactly when the fourth argument was staged as a package. So when
  the text has at most 2047 characters the command is exactly the text.
\<close>

theorem launch_command_shape:
  assumes "main w program_name [a1, anki_exe, anki_base, addon] = Some (tr, Exit 0)"
  shows "CreateProcessA (take 2047 (formatted_command anki_exe anki_base (staged_package addon)))
           \<in> set tr
     \<and> (\<forall>c. CreateProcessA c \<in> set tr \<longrightarrow>
            c = take 2047 (formatted_command anki_exe anki_base (staged_package addon)))
     \<and> formatted_command anki_exe anki_base (staged_package addon) =
          (if suffix package_extension addon
           then command_without_package anki_exe anki_base @ '' '' @ [dquote] @ addon @ [dquote]
           else command_without_package anki_exe anki_base)
     \<and> (length (formatted_command anki_exe anki_base (staged_package addon)) \<le> 2047 \<longrightarrow>
          CreateProcessA (formatted_command anki_exe anki_base (staged_package addon)) \<in> set tr)"
proof -
  from assms have pid: "parse_pid a1 \<noteq> 0"
    by (rule main_exit_0_pid)
  have cmd: "launch_command anki_exe anki_base (staged_package addon) =
      take 2047 (formatted_command anki_exe anki_base (staged_package addon))"
    by (simp add: launch_command_snprintf snprintf_def)
  have 1: "CreateProcessA (take 2047 (formatted_command anki_exe anki_base (staged_package addon)))
           \<in> set tr"
    using main_run_launch_events(1) [OF pid assms] by (simp add: cmd)
  have 2: "\<forall>c. CreateProcessA c \<in> set tr \<longrightarrow>
            c = take 2047 (formatted_command anki_exe anki_base (staged_package addon))"
    using main_run_launch_events(2) [OF pid assms] by (simp add: cmd)
  have 3: "formatted_command anki_exe anki_base (staged_package addon) =
          (if suffix package_extension addon
           then command_without_package anki_exe anki_base @ '' '' @ [dquote] @ addon @ [dquote]
           else command_without_package anki_exe anki_base)"
    by (simp add: formatted_command_staged command_with_package_def command_without_package_def)
  have 4: "length (formatted_command anki_exe anki_base (staged_package addon)) \<le> 2047 \<longrightarrow>
          CreateProcessA (formatted_command anki_exe anki_base (staged_package addon)) \<in> set tr"
  proof
    assume "length (formatted_command anki_exe anki_base (staged_package addon)) \<le> 2047"
    then have "take 2047 (formatted_command anki_exe anki_base (staged_package addon)) =
        formatted_command anki_exe anki_base (staged_package addon)"
      by simp
    with 1 show "CreateProcessA (formatted_command anki_exe anki_base (staged_package addon))
        \<in> set tr"
      by simp
  qed
  from 1 2 3 4 show ?thesis
    by (intro conjI)
qed

theorem launch_command_shape_witness:
  "main os_quiet ''restart_anki.exe'' [''1234'', ''anki.exe'', ''base'', ''new.ankiaddon''] =
     Some ([Printf (waiting_message 1234), OpenProcess 1234, Printf (gone_message 1234),
            Printf (installing_message ''new.ankiaddon''),
            Printf (''Executing: '' @ command_with_package ''anki.exe'' ''base'' ''new.ankiaddon''
                      @ [newline]),
            CreateProcessA (command_with_package ''anki.exe'' ''base'' ''new.ankiaddon''),
            CloseHandle 3, CloseHandle 4, Printf launch_success],
           Exit 0)
   \<and> length (command_with_package ''anki.exe'' ''base'' ''new.ankiaddon'') \<le> 2047
   \<and> command_with_package ''anki.exe'' ''base'' ''new.ankiaddon'' =
       command_without_package ''anki.exe'' ''base'' @ '' '' @ [dquote] @ ''new.ankiaddon'' @ [dquote]"
proof -
  have p: "parse_pid ''1234'' = 1234"
    by (rule parse_pid_1234)
  have w: "wait_loop os_quiet 1234 0 [Printf (waiting_message 1234)] =
      Some [Printf (waiting_message 1234), OpenProcess 1234]"
    by (simp add: wait_loop_at_once os_quiet_def)
  have s: "suffix package_extension ''new.ankiaddon''"
    by (simp add: package_extension_def suffix_def)
  have c: "launch_command ''anki.exe'' ''base'' (Some ''new.ankiaddon'') =
      command_with_package ''anki.exe'' ''base'' ''new.ankiaddon''"
    by (simp add: launch_command_def snprintf_def command_with_package_def)
  have l: "launch_anki os_quiet ''anki.exe'' ''base'' (Some ''new.ankiaddon'') =
      (True, [Printf (''Executing: '' @ command_with_package ''anki.exe'' ''base'' ''new.ankiaddon''
                        @ [newline]),
              CreateProcessA (command_with_package ''anki.exe'' ''base'' ''new.ankiaddon''),
              CloseHandle 3, CloseHandle 4])"
    by (simp add: launch_anki_def Let_def c os_quiet_def)
  have m: "main os_quiet ''restart_anki.exe'' [''1234'', ''anki.exe'', ''base'', ''new.ankiaddon''] =
     Some ([Printf (waiting_message 1234), OpenProcess 1234, Printf (gone_message 1234),
            Printf (installing_message ''new.ankiaddon''),
            Printf (''Executing: '' @ command_with_package ''anki.exe'' ''base'' ''new.ankiaddon''
                      @ [newline]),
            CreateProcessA (command_with_package ''anki.exe'' ''base'' ''new.ankiaddon''),
            CloseHandle 3, CloseHandle 4, Printf launch_success],
           Exit 0)"
    using main_after_wait [of "''1234''" os_quiet "[Printf (waiting_message 1234), OpenProcess 1234]"
        "''restart_anki.exe''" "''anki.exe''" "''base''" "''new.ankiaddon''"]
    by (simp add: p w staged_package_def s stage_or_delete_package l)
  have n: "length (command_with_package ''anki.exe'' ''base'' ''new.ankiaddon'') \<le> 2047"
    by (simp add: command_with_package_def)
  have e: "command_with_package ''anki.exe'' ''base'' ''new.ankiaddon'' =
       command_without_package ''anki.exe'' ''base'' @ '' '' @ [dquote] @ ''new.ankiaddon'' @ [dquote]"
    using launch_command_shape [OF m] s by (simp add: formatted_command_staged)
  from m n e show ?thesis
    by (intro conjI)
qed

text \<open>
  The claim as the specification words it gives every successful run the full command. With an
  executable path of 2100 characters the run succeeds and the command passed to
  \<open>CreateProcessA\<close> stops inside the path: it has no \<open>-b\<close> argument.
\<close>

theorem launch_command_shape_counterexample:
  "main os_quiet ''restart_anki.exe'' [''1234'', replicate 2100 (CHR ''a''), ''base'', ''addon''] =
     Some ([Printf (waiting_message 1234), OpenProcess 1234, Printf (gone_message 1234),
            Printf (deleting_message ''addon''),
            MultiByteToWideChar ''addon'', MultiByteToWideChar ''addon'', SHFileOperationW ''addon'',
            Printf (''Executing: '' @ ''cmd /c start /B '' @ [dquote, dquote] @ '' '' @ [dquote]
                      @ replicate 2027 (CHR ''a'') @ [newline]),
            CreateProcessA (''cmd /c start /B '' @ [dquote, dquote] @ '' '' @ [dquote]
                              @ replicate 2027 (CHR ''a'')),
            CloseHandle 3, CloseHandle 4, Printf launch_success],
           Exit 0)
   \<and> ''cmd /c start /B '' @ [dquote, dquote] @ '' '' @ [dquote] @ replicate 2027 (CHR ''a'')
       \<noteq> command_without_package (replicate 2100 (CHR ''a'')) ''base''"
proof -
  have p: "parse_pid ''1234'' = 1234"
    by (rule parse_pid_1234)
  have w: "wait_loop os_quiet 1234 0 [Printf (waiting_message 1234)] =
      Some [Printf (waiting_message 1234), OpenProcess 1234]"
    by (simp add: wait_loop_at_once os_quiet_def)
  have s: "\<not> suffix package_extension ''addon''"
    by (simp add: package_extension_def suffix_def)
  have d: "send_to_trash os_quiet ''addon'' =
      (True, [MultiByteToWideChar ''addon'', MultiByteToWideChar ''addon'', SHFileOperationW ''addon''])"
    by (simp add: send_to_trash_def os_quiet_def Let_def)
  have c: "launch_command (replicate 2100 (CHR ''a'')) ''base'' None =
      ''cmd /c start /B '' @ [dquote, dquote] @ '' '' @ [dquote] @ replicate 2027 (CHR ''a'')"
    by (simp add: launch_command_def snprintf_def command_without_package_def)
  have l: "launch_anki os_quiet (replicate 2100 (CHR ''a'')) ''base'' None =
      (True, [Printf (''Executing: '' @ ''cmd /c start /B '' @ [dquote, dquote] @ '' '' @ [dquote]
                      @ replicate 2027 (CHR ''a'') @ [newline]),
              CreateProcessA (''cmd /c start /B '' @ [dquote, dquote] @ '' '' @ [dquote]
                              @ replicate 2027 (CHR ''a'')),
              CloseHandle 3, CloseHandle 4])"
    by (simp add: launch_anki_def Let_def c os_quiet_def)
  have m: "main os_quiet ''restart_anki.exe'' [''1234'', replicate 2100 (CHR ''a''), ''base'', ''addon''] =
     Some ([Printf (waiting_message 1234), OpenProcess 1234, Printf (gone_message 1234),
            Printf (deleting_message ''addon''),
            MultiByteToWideChar ''addon'', MultiByteToWideChar ''addon'', SHFileOperationW ''addon'',
            Printf (''Executing: '' @ ''cmd /c start /B '' @ [dquote, dquote] @ '' '' @ [dquote]
                      @ replicate 2027 (CHR ''a'') @ [newline]),
            CreateProcessA (''cmd /c start /B '' @ [dquote, dquote] @ '' '' @ [dquote]
                              @ replicate 2027 (CHR ''a'')),
            CloseHandle 3, CloseHandle 4, Printf launch_success],
           Exit 0)"
    using main_after_wait [of "''1234''" os_quiet "[Printf (waiting_message 1234), OpenProcess 1234]"
        "''restart_anki.exe''" "replicate 2100 (CHR ''a'')" "''base''" "''addon''"]
    by (simp add: p w staged_package_def s stage_or_delete_directory d l)
  have "length (''cmd /c start /B '' @ [dquote, dquote] @ '' '' @ [dquote] @ replicate 2027 (CHR ''a''))
      \<noteq> length (command_without_package (replicate 2100 (CHR ''a'')) ''base'')"
    by (simp add: command_without_package_def)
  then have n: "''cmd /c start /B '' @ [dquote, dquote] @ '' '' @ [dquote] @ replicate 2027 (CHR ''a'')
       \<noteq> command_without_package (replicate 2100 (CHR ''a'')) ''base''"
    by metis
  from m n show ?thesis by simp
qed

section \<open>The result of the launch (claim C8)\<close>

text \<open>
  Claim C8. Every run with four arguments and a pid other than 0 whose wait step returns
  reaches the launch and ends there: it passes the command to \<open>CreateProcessA\<close>, and when that
  call fails it prints the error and returns 1, and when it succeeds it prints the success
  message and returns 0. The exit code depends on nothing else: not on what the deletion did.
\<close>

theorem launch_decides_exit_code:
  assumes "parse_pid a1 \<noteq> 0"
    and "wait_loop w (parse_pid a1) 0 [Printf (waiting_message (parse_pid a1))] = Some t1"
  shows "\<exists>tr. main w program_name [a1, anki_exe, anki_base, addon] =
                Some (tr, Exit (if create_process_a w
                                     (launch_command anki_exe anki_base (staged_package addon)) = None
                                then 1 else 0))
            \<and> CreateProcessA (launch_command anki_exe anki_base (staged_package addon)) \<in> set tr
            \<and> last tr =
                 Printf (if create_process_a w
                              (launch_command anki_exe anki_base (staged_package addon)) = None
                         then launch_error else launch_success)"
proof -
  from main_after_wait [OF assms, of program_name anki_exe anki_base addon]
  obtain tr st where m: "main w program_name [a1, anki_exe, anki_base, addon] = Some (tr, st)"
    by blast
  from main_run_launch_events(1,3,4) [OF assms(1) m] m show ?thesis
    by blast
qed

theorem launch_decides_exit_code_witness:
  "main os_no_launch ''restart_anki.exe'' [''1234'', ''anki.exe'', ''base'', ''new.ankiaddon''] =
     Some ([Printf (waiting_message 1234), OpenProcess 1234, Printf (gone_message 1234),
            Printf (installing_message ''new.ankiaddon''),
            Printf (''Executing: '' @ command_with_package ''anki.exe'' ''base'' ''new.ankiaddon''
                      @ [newline]),
            CreateProcessA (command_with_package ''anki.exe'' ''base'' ''new.ankiaddon''),
            Printf launch_error],
           Exit 1)
   \<and> create_process_a os_no_launch (command_with_package ''anki.exe'' ''base'' ''new.ankiaddon'')
       = None"
proof -
  have p: "parse_pid ''1234'' = 1234"
    by (rule parse_pid_1234)
  have w: "wait_loop os_no_launch 1234 0 [Printf (waiting_message 1234)] =
      Some [Printf (waiting_message 1234), OpenProcess 1234]"
    by (simp add: wait_loop_at_once os_no_launch_def os_quiet_def)
  have s: "suffix package_extension ''new.ankiaddon''"
    by (simp add: package_extension_def suffix_def)
  have c: "launch_command ''anki.exe'' ''base'' (Some ''new.ankiaddon'') =
      command_with_package ''anki.exe'' ''base'' ''new.ankiaddon''"
    by (simp add: launch_command_def snprintf_def command_with_package_def)
  have n: "create_process_a os_no_launch x = None" for x
    by (simp add: os_no_launch_def os_quiet_def)
  have l: "launch_anki os_no_launch ''anki.exe'' ''base'' (Some ''new.ankiaddon'') =
      (False, [Printf (''Executing: '' @ command_with_package ''anki.exe'' ''base'' ''new.ankiaddon''
                        @ [newline]),
              CreateProcessA (command_with_package ''anki.exe'' ''base'' ''new.ankiaddon'')])"
    by (simp add: launch_anki_def Let_def c n)
  have m: "main os_no_launch ''restart_anki.exe'' [''1234'', ''anki.exe'', ''base'', ''new.ankiaddon''] =
     Some ([Printf (waiting_message 1234), OpenProcess 1234, Printf (gone_message 1234),
            Printf (installing_message ''new.ankiaddon''),
            Printf (''Executing: '' @ command_with_package ''anki.exe'' ''base'' ''new.ankiaddon''
                      @ [newline]),
            CreateProcessA (command_with_package ''anki.exe'' ''base'' ''new.ankiaddon''),
            Printf launch_error],
           Exit 1)"
    using main_after_wait [of "''1234''" os_no_launch "[Printf (waiting_message 1234), OpenProcess 1234]"
        "''restart_anki.exe''" "''anki.exe''" "''base''" "''new.ankiaddon''"]
    by (simp add: p w staged_package_def s stage_or_delete_package l)
  have a: "parse_pid ''1234'' \<noteq> 0"
    by (simp add: p)
  have b: "wait_loop os_no_launch (parse_pid ''1234'') 0 [Printf (waiting_message (parse_pid ''1234''))] =
      Some [Printf (waiting_message 1234), OpenProcess 1234]"
    by (simp add: p w)
  from launch_decides_exit_code [OF a b, of "''restart_anki.exe''" "''anki.exe''" "''base''"
      "''new.ankiaddon''"]
  have "main os_no_launch ''restart_anki.exe'' [''1234'', ''anki.exe'', ''base'', ''new.ankiaddon''] =
     Some ([Printf (waiting_message 1234), OpenProcess 1234, Printf (gone_message 1234),
            Printf (installing_message ''new.ankiaddon''),
            Printf (''Executing: '' @ command_with_package ''anki.exe'' ''base'' ''new.ankiaddon''
                      @ [newline]),
            CreateProcessA (command_with_package ''anki.exe'' ''base'' ''new.ankiaddon''),
            Printf launch_error],
           Exit 1)"
    by (simp add: m)
  with n show ?thesis
    by (intro conjI)
qed

section \<open>A null and an empty package (claim C9)\<close>

text \<open>
  Claim C9. For every executable path and base directory, \<open>launch_anki\<close> called with a
  null package file and called with an empty package file do the same: they build the same
  command, which is the one without a package argument, and cause the same events.
\<close>

theorem launch_anki_null_or_empty_package:
  "launch_anki w anki_exe anki_base None = launch_anki w anki_exe anki_base (Some '''')
   \<and> launch_command anki_exe anki_base None = launch_command anki_exe anki_base (Some '''')
   \<and> launch_command anki_exe anki_base (Some '''') =
       snprintf 2048 (command_without_package anki_exe anki_base)"
  by (simp add: launch_anki_def launch_command_def)

section \<open>The length of the command (claim C10)\<close>

text \<open>
  Claim C10. The command built by \<open>launch_anki\<close> has at most 2047 characters: it is the
  first 2047 characters of the formatted text. When the formatted text is longer, the
  command has exactly 2047 characters and differs from it, and \<open>launch_anki\<close> goes on
  as with any command: it prints the command, passes it to \<open>CreateProcessA\<close>, closes the two
  handles if there are any, and returns what \<open>CreateProcessA\<close> answered; nothing reports
  the cut.
\<close>

theorem launch_command_truncated:
  "length (launch_command anki_exe anki_base package_file) \<le> 2047
   \<and> launch_command anki_exe anki_base package_file =
       take 2047 (formatted_command anki_exe anki_base package_file)
   \<and> (2047 < length (formatted_command anki_exe anki_base package_file) \<longrightarrow>
        length (launch_command anki_exe anki_base package_file) = 2047
        \<and> launch_command anki_exe anki_base package_file \<noteq>
            formatted_command anki_exe anki_base package_file)
   \<and> take 2 (snd (launch_anki w anki_exe anki_base package_file)) =
       [Printf (''Executing: '' @ take 2047 (formatted_command anki_exe anki_base package_file)
                  @ [newline]),
        CreateProcessA (take 2047 (formatted_command anki_exe anki_base package_file))]
   \<and> (\<forall>e \<in> set (drop 2 (snd (launch_anki w anki_exe anki_base package_file))).
         \<exists>h. e = CloseHandle h)
   \<and> fst (launch_anki w anki_exe anki_base package_file) =
       (create_process_a w (take 2047 (formatted_command anki_exe anki_base package_file))
          \<noteq> None)"
proof -
  have cmd: "launch_command anki_exe anki_base package_file =
       take 2047 (formatted_command anki_exe anki_base package_file)"
    by (simp add: launch_command_snprintf snprintf_def)
  have len: "length (launch_command anki_exe anki_base package_file) \<le> 2047"
    by (simp add: cmd)
  have cut: "2047 < length (formatted_command anki_exe anki_base package_file) \<longrightarrow>
        length (launch_command anki_exe anki_base package_file) = 2047
        \<and> launch_command anki_exe anki_base package_file \<noteq>
            formatted_command anki_exe anki_base package_file"
  proof
    assume long: "2047 < length (formatted_command anki_exe anki_base package_file)"
    then have l: "length (launch_command anki_exe anki_base package_file) = 2047"
      by (simp add: cmd)
    with long have "launch_command anki_exe anki_base package_file \<noteq>
            formatted_command anki_exe anki_base package_file"
      by (metis less_irrefl)
    with l show "length (launch_command anki_exe anki_base package_file) = 2047
        \<and> launch_command anki_exe anki_base package_file \<noteq>
            formatted_command anki_exe anki_base package_file"
      by simp
  qed
  have tr: "take 2 (snd (launch_anki w anki_exe anki_base package_file)) =
       [Printf (''Executing: '' @ take 2047 (formatted_command anki_exe anki_base package_file)
                  @ [newline]),
        CreateProcessA (take 2047 (formatted_command anki_exe anki_base package_file))]"
    by (simp add: launch_anki_trace cmd)
  have rest: "\<forall>e \<in> set (drop 2 (snd (launch_anki w anki_exe anki_base package_file))).
         \<exists>h. e = CloseHandle h"
    by (auto simp: launch_anki_trace split: option.split)
  have res: "fst (launch_anki w anki_exe anki_base package_file) =
       (create_process_a w (take 2047 (formatted_command anki_exe anki_base package_file))
          \<noteq> None)"
    by (simp add: launch_anki_result cmd)
  from len cmd cut tr rest res show ?thesis
    by (simp only: simp_thms)
qed

theorem launch_command_truncated_witness:
  "2047 < length (formatted_command (replicate 2100 (CHR ''a'')) ''base'' None)
   \<and> length (launch_command (replicate 2100 (CHR ''a'')) ''base'' None) = 2047
   \<and> launch_command (replicate 2100 (CHR ''a'')) ''base'' None \<noteq>
       formatted_command (replicate 2100 (CHR ''a'')) ''base'' None
   \<and> fst (launch_anki os_quiet (replicate 2100 (CHR ''a'')) ''base'' None)"
proof -
  have long: "2047 < length (formatted_command (replicate 2100 (CHR ''a'')) ''base'' None)"
    by (simp add: formatted_command_def command_without_package_def)
  have ok: "create_process_a os_quiet c \<noteq> None" for c
    by (simp add: os_quiet_def)
  from long ok show ?thesis
    using launch_command_truncated [of "replicate 2100 (CHR ''a'')" "''base''" None os_quiet]
    by simp
qed

end
